theory Spec2Isabelle
  imports Main "HOL-Library.While_Combinator"
begin

section \<open>Values, exceptions and outcomes\<close>

text \<open>
  The program is \<^verbatim>\<open>parser.py\<close>. A grammar rule is the two-element list
  \<^verbatim>\<open>[no_terminal, derivacion]\<close> of \<^verbatim>\<open>reglas_gramatica\<close>: the left-hand side is a
  string, the right-hand side a string whose characters are the symbols. Iterating a
  Python string yields one-character strings, so the symbol at a character \<open>c\<close> is
  the string \<open>[c]\<close>. Characters are the 256 code points of \<^typ>\<open>char\<close>.

  A Python \<^verbatim>\<open>set\<close> of symbols is a \<^typ>\<open>string set\<close>; \<^verbatim>\<open>len\<close> of it is
  \<^const>\<open>card\<close>. A dictionary from non-terminals to sets is a map; inside the
  function that builds it (keys: \<^verbatim>\<open>conjunto_no_terminales\<close>, never changed) it is a
  total function, and a lookup of a key that may be absent is guarded and raises
  \<open>KeyError\<close>.

  A computation returns a value, raises an exception that nothing catches, or never
  returns.
\<close>

datatype error = KeyError | ValueError | TypeError

datatype 'a resultado = Devuelve 'a | Lanza error | NoTermina

fun ligar :: "'a resultado \<Rightarrow> ('a \<Rightarrow> 'b resultado) \<Rightarrow> 'b resultado" where
  "ligar (Devuelve x) f = f x"
| "ligar (Lanza e) f = Lanza e"
| "ligar NoTermina f = NoTermina"

type_synonym regla = "string \<times> string"
type_synonym conjuntos = "string \<rightharpoonup> string set"

text \<open>\<^verbatim>\<open>str.isupper()\<close> on a one-character string, for the code points below 256.\<close>

definition es_mayuscula :: "char \<Rightarrow> bool" where
  "es_mayuscula c =
     (let n = (of_char c :: nat) in
      (65 \<le> n \<and> n \<le> 90) \<or> (192 \<le> n \<and> n \<le> 214) \<or> (216 \<le> n \<and> n \<le> 222))"

section \<open>identificar\_simbolos\<close>

fun clasificar :: "string \<Rightarrow> string set \<times> string set \<Rightarrow> string set \<times> string set" where
  "clasificar [] (N, T) = (N, T)"
| "clasificar (c # cs) (N, T) =
     (if es_mayuscula c then clasificar cs (insert [c] N, T)
      else if [c] \<noteq> ''e'' then clasificar cs (N, insert [c] T)
      else clasificar cs (N, T))"

fun recorrer_reglas :: "regla list \<Rightarrow> string set \<times> string set \<Rightarrow> string set \<times> string set" where
  "recorrer_reglas [] (N, T) = (N, T)"
| "recorrer_reglas ((A, d) # rs) (N, T) = recorrer_reglas rs (clasificar d (insert A N, T))"

definition identificar_simbolos :: "regla list \<Rightarrow> string set \<times> string set" where
  "identificar_simbolos reglas =
     (case recorrer_reglas reglas ({}, {}) of (N, T) \<Rightarrow> (N, insert ''$'' T))"

section \<open>calcular\_conjuntos\_primeros\<close>

text \<open>
  The inner \<^verbatim>\<open>while i < len(derivacion)\<close> walk of one rule \<open>A \<rightarrow> d\<close>, on the
  symbols still to visit. The state is the dictionary and \<^verbatim>\<open>hubo_cambios\<close>; the
  third component returned is \<^verbatim>\<open>todos_tienen_epsilon\<close>. A symbol that is in neither
  alphabet takes neither branch and leaves \<open>i\<close> unchanged: the loop spins.
\<close>

fun primeros_recorrer ::
  "string set \<Rightarrow> string set \<Rightarrow> string \<Rightarrow> string \<Rightarrow> (string \<Rightarrow> string set) \<times> bool
     \<Rightarrow> ((string \<Rightarrow> string set) \<times> bool \<times> bool) resultado" where
  "primeros_recorrer N T A [] (pr, c) = Devuelve (pr, c, True)"
| "primeros_recorrer N T A (x # xs) (pr, c) =
     (if [x] \<in> T then
        (if [x] \<notin> pr A then Devuelve (pr(A := insert [x] (pr A)), True, False)
         else Devuelve (pr, c, False))
      else if [x] \<in> N then
        (let pr' = pr(A := pr A \<union> (pr [x] - {''e''})) in
         if ''e'' \<notin> pr' [x] then Devuelve (pr', c, False)
         else primeros_recorrer N T A xs (pr', c))
      else NoTermina)"

definition primeros_regla ::
  "string set \<Rightarrow> string set \<Rightarrow> regla \<Rightarrow> (string \<Rightarrow> string set) \<times> bool
     \<Rightarrow> ((string \<Rightarrow> string set) \<times> bool) resultado" where
  "primeros_regla N T r s =
     (case r of (A, d) \<Rightarrow> case s of (pr, c) \<Rightarrow>
        if A \<notin> N then Lanza KeyError
        else
          ligar
            (if d = [] then
               Devuelve (if ''e'' \<notin> pr A then (pr(A := insert ''e'' (pr A)), True) else (pr, c))
             else
               ligar (primeros_recorrer N T A d (pr, c))
                 (\<lambda>(pr', c', todos).
                    Devuelve (if todos \<and> ''e'' \<notin> pr' A
                              then (pr'(A := insert ''e'' (pr' A)), True) else (pr', c'))))
            (\<lambda>(pr'', c''). Devuelve (pr'', c'' \<or> card (pr'' A) > card (pr A))))"

fun primeros_pasada ::
  "string set \<Rightarrow> string set \<Rightarrow> regla list \<Rightarrow> (string \<Rightarrow> string set) \<times> bool
     \<Rightarrow> ((string \<Rightarrow> string set) \<times> bool) resultado" where
  "primeros_pasada N T [] s = Devuelve s"
| "primeros_pasada N T (r # rs) s = ligar (primeros_regla N T r s) (\<lambda>s'. primeros_pasada N T rs s')"

text \<open>The outer \<^verbatim>\<open>while hubo_cambios\<close> loop runs while the state is a returned one
  with the flag set.\<close>

fun continua :: "('a \<times> bool) resultado \<Rightarrow> bool" where
  "continua (Devuelve (x, c)) = c"
| "continua (Lanza e) = False"
| "continua NoTermina = False"

definition primeros_bucle ::
  "regla list \<Rightarrow> string set \<Rightarrow> string set
     \<Rightarrow> ((string \<Rightarrow> string set) \<times> bool) resultado option" where
  "primeros_bucle reglas N T =
     while_option continua
       (\<lambda>s. ligar s (\<lambda>(pr, c). primeros_pasada N T reglas (pr, False)))
       (Devuelve (\<lambda>k. {}, True))"

definition como_dict :: "string set \<Rightarrow> (string \<Rightarrow> 'v) \<Rightarrow> (string \<rightharpoonup> 'v)" where
  "como_dict N f = (\<lambda>k. if k \<in> N then Some (f k) else None)"

definition calcular_conjuntos_primeros ::
  "regla list \<Rightarrow> string set \<Rightarrow> string set \<Rightarrow> conjuntos resultado" where
  "calcular_conjuntos_primeros reglas N T =
     (case primeros_bucle reglas N T of
        None \<Rightarrow> NoTermina
      | Some s \<Rightarrow> ligar s (\<lambda>(pr, c). Devuelve (como_dict N pr)))"

section \<open>calcular\_conjuntos\_siguientes\<close>

text \<open>
  The state is \<^verbatim>\<open>siguientes\<close>, \<^verbatim>\<open>visitados\<close> and \<^verbatim>\<open>hubo_cambios\<close>.
  \<^verbatim>\<open>agregar_follow(simbolo, no_terminal)\<close> returns \<^verbatim>\<open>None\<close> (falsy) on a visited
  symbol, else whether the set grew; the caller has checked that \<open>simbolo\<close> is a key.
\<close>

type_synonym estado_sig = "(string \<Rightarrow> string set) \<times> (string \<Rightarrow> bool) \<times> bool"

definition agregar_follow ::
  "string set \<Rightarrow> string \<Rightarrow> string \<Rightarrow> (string \<Rightarrow> string set) \<times> (string \<Rightarrow> bool)
     \<Rightarrow> ((string \<Rightarrow> string set) \<times> (string \<Rightarrow> bool) \<times> bool) resultado" where
  "agregar_follow N simbolo no_terminal s =
     (case s of (sg, vis) \<Rightarrow>
        if vis simbolo then Devuelve (sg, vis, False)
        else if no_terminal \<notin> N then Lanza KeyError
        else
          (let sg' = sg(simbolo := sg simbolo \<union> sg no_terminal) in
           Devuelve (sg', vis(simbolo := True), card (sg' simbolo) > card (sg simbolo))))"

text \<open>The body of \<^verbatim>\<open>for i in range(len(derivacion))\<close> at a position that has a next
  symbol: \<open>x\<close> is \<^verbatim>\<open>derivacion[i]\<close> and \<open>y\<close> is \<^verbatim>\<open>derivacion[i + 1]\<close>.\<close>

definition siguientes_posicion ::
  "string set \<Rightarrow> string set \<Rightarrow> conjuntos \<Rightarrow> string \<Rightarrow> char \<Rightarrow> char \<Rightarrow> estado_sig
     \<Rightarrow> estado_sig resultado" where
  "siguientes_posicion N T pr A x y s =
     (case s of (sg, vis, c) \<Rightarrow>
        if [x] \<in> N then
          (if [y] \<in> T then
             (let sg' = sg([x] := insert [y] (sg [x])) in
              Devuelve (sg', vis, c \<or> card (sg' [x]) > card (sg [x])))
           else if [y] \<in> N then
             (case pr [y] of
                None \<Rightarrow> Lanza KeyError
              | Some Fy \<Rightarrow>
                  (let sg' = sg([x] := sg [x] \<union> (Fy - {''e''}));
                       c' = (c \<or> card (sg' [x]) > card (sg [x])) in
                   if ''e'' \<in> Fy \<and> A \<noteq> [x] then
                     ligar (agregar_follow N [x] A (sg', vis))
                       (\<lambda>(sg'', vis', b). Devuelve (sg'', vis', c' \<or> b))
                   else Devuelve (sg', vis, c')))
           else Devuelve (sg, vis, c))
        else Devuelve (sg, vis, c))"

text \<open>The whole \<^verbatim>\<open>for\<close> loop over the positions of one right-hand side; at the last
  position only the left-hand side's FOLLOW set is copied.\<close>

fun siguientes_recorrer ::
  "string set \<Rightarrow> string set \<Rightarrow> conjuntos \<Rightarrow> string \<Rightarrow> string \<Rightarrow> estado_sig
     \<Rightarrow> estado_sig resultado" where
  "siguientes_recorrer N T pr A [] s = Devuelve s"
| "siguientes_recorrer N T pr A [x] (sg, vis, c) =
     (if [x] \<in> N \<and> A \<noteq> [x] then
        ligar (agregar_follow N [x] A (sg, vis))
          (\<lambda>(sg', vis', b). Devuelve (sg', vis', c \<or> b))
      else Devuelve (sg, vis, c))"
| "siguientes_recorrer N T pr A (x # y # ys) s =
     ligar (siguientes_posicion N T pr A x y s)
       (\<lambda>s'. siguientes_recorrer N T pr A (y # ys) s')"

fun siguientes_pasada ::
  "string set \<Rightarrow> string set \<Rightarrow> conjuntos \<Rightarrow> regla list \<Rightarrow> estado_sig \<Rightarrow> estado_sig resultado" where
  "siguientes_pasada N T pr [] s = Devuelve s"
| "siguientes_pasada N T pr ((A, d) # rs) s =
     ligar (siguientes_recorrer N T pr A d s) (\<lambda>s'. siguientes_pasada N T pr rs s')"

fun continua_sig :: "estado_sig resultado \<Rightarrow> bool" where
  "continua_sig (Devuelve (sg, vis, c)) = c"
| "continua_sig (Lanza e) = False"
| "continua_sig NoTermina = False"

text \<open>\<^verbatim>\<open>simbolo_inicial\<close> is the global the loader sets; \<open>'$'\<close> is added only when it
  is a key.\<close>

definition siguientes_inicial :: "string \<Rightarrow> string set \<Rightarrow> string \<Rightarrow> string set" where
  "siguientes_inicial S N = (\<lambda>k. if k = S \<and> S \<in> N then {''$''} else {})"

definition siguientes_bucle ::
  "regla list \<Rightarrow> string \<Rightarrow> string set \<Rightarrow> string set \<Rightarrow> conjuntos \<Rightarrow> estado_sig resultado option" where
  "siguientes_bucle reglas S N T pr =
     while_option continua_sig
       (\<lambda>s. ligar s (\<lambda>(sg, vis, c). siguientes_pasada N T pr reglas (sg, (\<lambda>k. False), False)))
       (Devuelve (siguientes_inicial S N, (\<lambda>k. False), True))"

definition calcular_conjuntos_siguientes ::
  "regla list \<Rightarrow> string \<Rightarrow> string set \<Rightarrow> string set \<Rightarrow> conjuntos \<Rightarrow> conjuntos resultado" where
  "calcular_conjuntos_siguientes reglas S N T pr =
     (case siguientes_bucle reglas S N T pr of
        None \<Rightarrow> NoTermina
      | Some s \<Rightarrow> ligar s (\<lambda>(sg, vis, c). Devuelve (como_dict N sg)))"

section \<open>construir\_tabla\_ll1\<close>

text \<open>
  \<^verbatim>\<open>tabla_ll1\<close> is a dictionary of dictionaries with keys
  \<^verbatim>\<open>conjunto_no_terminales\<close> and \<^verbatim>\<open>conjunto_terminales\<close>; a cell holds Python's
  \<^verbatim>\<open>None\<close> (here \<open>None\<close>) or a right-hand side.
\<close>

type_synonym tabla = "string \<rightharpoonup> (string \<rightharpoonup> string option)"

definition tabla_vacia :: "string set \<Rightarrow> string set \<Rightarrow> tabla" where
  "tabla_vacia N T = como_dict N (\<lambda>A. como_dict T (\<lambda>t. None))"

text \<open>The walk that computes \<^verbatim>\<open>primeros_derivacion\<close> of one right-hand side; the
  accumulator is the set built so far.\<close>

fun primeros_derivacion ::
  "string set \<Rightarrow> string set \<Rightarrow> conjuntos \<Rightarrow> string \<Rightarrow> string set \<Rightarrow> string set resultado" where
  "primeros_derivacion N T pr [] F = Devuelve (insert ''e'' F)"
| "primeros_derivacion N T pr (x # xs) F =
     (if [x] \<in> T then Devuelve (insert [x] F)
      else if [x] \<in> N then
        (case pr [x] of
           None \<Rightarrow> Lanza KeyError
         | Some Fx \<Rightarrow>
             if ''e'' \<notin> Fx then Devuelve (F \<union> (Fx - {''e''}))
             else primeros_derivacion N T pr xs (F \<union> (Fx - {''e''})))
      else NoTermina)"

text \<open>
  One \<^verbatim>\<open>for terminal in ...\<close> loop over a set \<open>ts\<close>: every cell \<open>(A, t)\<close> is tested
  against \<^verbatim>\<open>None\<close> and then assigned \<open>d\<close>. The cells of one loop are pairwise
  different, so the outcome does not depend on the order in which Python visits the set:
  a missing key raises, a cell that was not \<^verbatim>\<open>None\<close> sets \<^verbatim>\<open>conflictos\<close>.
\<close>

definition asignar_celdas ::
  "tabla \<times> bool \<Rightarrow> string \<Rightarrow> string set \<Rightarrow> string \<Rightarrow> (tabla \<times> bool) resultado" where
  "asignar_celdas s A ts d =
     (case s of (tb, c) \<Rightarrow>
        if ts = {} then Devuelve (tb, c)
        else
          (case tb A of
             None \<Rightarrow> Lanza KeyError
           | Some fila \<Rightarrow>
               if \<exists>t \<in> ts. fila t = None then Lanza KeyError
               else Devuelve
                 (tb(A \<mapsto> (\<lambda>t. if t \<in> ts then Some (Some d) else fila t)),
                  c \<or> (\<exists>t \<in> ts. fila t \<noteq> Some None))))"

definition tabla_regla ::
  "string set \<Rightarrow> string set \<Rightarrow> conjuntos \<Rightarrow> conjuntos \<Rightarrow> regla \<Rightarrow> tabla \<times> bool
     \<Rightarrow> (tabla \<times> bool) resultado" where
  "tabla_regla N T pr sg r s =
     (case r of (A, d) \<Rightarrow>
        ligar (primeros_derivacion N T pr d {})
          (\<lambda>F. ligar (asignar_celdas s A (F - {''e''}) d)
             (\<lambda>s'. if ''e'' \<in> F then
                      (case sg A of
                         None \<Rightarrow> Lanza KeyError
                       | Some Fo \<Rightarrow> asignar_celdas s' A Fo d)
                    else Devuelve s')))"

fun tabla_reglas ::
  "string set \<Rightarrow> string set \<Rightarrow> conjuntos \<Rightarrow> conjuntos \<Rightarrow> regla list \<Rightarrow> tabla \<times> bool
     \<Rightarrow> (tabla \<times> bool) resultado" where
  "tabla_reglas N T pr sg [] s = Devuelve s"
| "tabla_reglas N T pr sg (r # rs) s =
     ligar (tabla_regla N T pr sg r s) (\<lambda>s'. tabla_reglas N T pr sg rs s')"

definition construir_tabla_ll1 ::
  "regla list \<Rightarrow> string set \<Rightarrow> string set \<Rightarrow> conjuntos \<Rightarrow> conjuntos \<Rightarrow> (tabla \<times> bool) resultado" where
  "construir_tabla_ll1 reglas N T pr sg = tabla_reglas N T pr sg reglas (tabla_vacia N T, False)"

section \<open>analizar\_ll1\<close>

text \<open>
  \<^verbatim>\<open>pila\<close> is a Python list used as a stack: \<^verbatim>\<open>pila[-1]\<close> is its last element,
  \<^verbatim>\<open>pop()\<close> removes the last element and \<^verbatim>\<open>append\<close> adds one at the end. The list
  is kept in the same order here. One iteration of \<^verbatim>\<open>while pila\<close> either goes on with
  a new stack and cursor (\<open>Inl\<close>) or returns the verdict (\<open>Inr\<close>).
\<close>

definition pila_inicial :: "string \<Rightarrow> string list" where
  "pila_inicial S = [S, ''$'']"

definition tope :: "string list \<Rightarrow> string" where
  "tope pila = last pila"

definition ll1_paso ::
  "string \<Rightarrow> tabla \<Rightarrow> string set \<Rightarrow> string list \<times> nat
     \<Rightarrow> (string list \<times> nat + bool) resultado" where
  "ll1_paso cadena tb T s =
     (case s of (pila, i) \<Rightarrow>
        if pila = [] then Devuelve (Inr False)
        else if tope pila \<in> T then
          (if i \<ge> length cadena then Devuelve (Inr False)
           else if tope pila = [cadena ! i] then Devuelve (Inl (butlast pila, i + 1))
           else Devuelve (Inr False))
        else if tope pila = ''$'' then Devuelve (Inr (i = length cadena))
        else
          (if i \<ge> length cadena then Devuelve (Inr False)
           else if [cadena ! i] \<notin> T then Devuelve (Inr False)
           else
             (case tb (tope pila) of
                None \<Rightarrow> Lanza KeyError
              | Some fila \<Rightarrow>
                  (case fila [cadena ! i] of
                     None \<Rightarrow> Lanza KeyError
                   | Some None \<Rightarrow> Devuelve (Inr False)
                   | Some (Some produccion) \<Rightarrow>
                       Devuelve (Inl (butlast pila @ map (\<lambda>c. [c]) (rev produccion), i))))))"

fun ll1_sigue :: "(string list \<times> nat + bool) resultado \<Rightarrow> bool" where
  "ll1_sigue (Devuelve (Inl s)) = True"
| "ll1_sigue (Devuelve (Inr b)) = False"
| "ll1_sigue (Lanza e) = False"
| "ll1_sigue NoTermina = False"

fun ll1_veredicto :: "(string list \<times> nat + bool) resultado \<Rightarrow> bool resultado" where
  "ll1_veredicto (Devuelve (Inr b)) = Devuelve b"
| "ll1_veredicto (Devuelve (Inl s)) = NoTermina"
| "ll1_veredicto (Lanza e) = Lanza e"
| "ll1_veredicto NoTermina = NoTermina"

definition ll1_bucle ::
  "string \<Rightarrow> tabla \<Rightarrow> string set \<Rightarrow> string list \<times> nat
     \<Rightarrow> (string list \<times> nat + bool) resultado option" where
  "ll1_bucle cadena tb T s0 =
     while_option ll1_sigue
       (\<lambda>r. ligar r (\<lambda>v. case v of Inl s \<Rightarrow> ll1_paso cadena tb T s | Inr b \<Rightarrow> Devuelve (Inr b)))
       (Devuelve (Inl s0))"

definition analizar_ll1 ::
  "string \<Rightarrow> string \<Rightarrow> tabla \<Rightarrow> string set \<Rightarrow> string set \<Rightarrow> bool resultado" where
  "analizar_ll1 S cadena tb N T =
     (case ll1_bucle cadena tb T (pila_inicial S, 0) of
        None \<Rightarrow> NoTermina
      | Some r \<Rightarrow> ll1_veredicto r)"

section \<open>LR(0) items: cerrar\_item and ir\_a\<close>

text \<open>
  An item is the tuple \<^verbatim>\<open>((no_terminal, derivacion), posicion)\<close>. In this part the
  program iterates over sets of items and builds lists from them, so a set of items (a
  \<^verbatim>\<open>set\<close> or \<^verbatim>\<open>frozenset\<close>) is a duplicate-free list, visited in list order;
  \<^verbatim>\<open>add\<close> is \<open>agregar\<close>, and two frozensets are equal when the lists have the same
  elements.

  \<^verbatim>\<open>cerrar_item\<close> is written for one item, and \<^verbatim>\<open>es_slr1\<close> calls it so; \<^verbatim>\<open>ir_a\<close>
  calls it with a frozenset of items. Python builds \<^verbatim>\<open>items_cerrados = {item}\<close>, a
  set whose one element is that frozenset, and the first
  \<^verbatim>\<open>for (no_terminal, derivacion), posicion in items_cerrados\<close> unpacks the frozenset
  itself into two targets: with a number of elements other than two this raises
  \<open>ValueError\<close>; with two elements, \<^verbatim>\<open>derivacion\<close> is bound to the position of the
  first one, an \<^verbatim>\<open>int\<close>, and \<^verbatim>\<open>len(derivacion)\<close> raises \<open>TypeError\<close>.
\<close>

type_synonym item = "(string \<times> string) \<times> nat"

datatype argumento = UnItem item | UnConjunto "item list"

definition agregar :: "'a \<Rightarrow> 'a list \<Rightarrow> 'a list" where
  "agregar x xs = (if x \<in> set xs then xs else xs @ [x])"

definition nuevos_de_item :: "regla list \<Rightarrow> item list \<Rightarrow> item \<Rightarrow> item list \<Rightarrow> item list" where
  "nuevos_de_item reglas items it nuevos =
     (case it of ((A, d), p) \<Rightarrow>
        if p < length d \<and> es_mayuscula (d ! p) then
          fold (\<lambda>(B, g) acc.
                  if B = [d ! p] \<and> ((B, g), 0) \<notin> set items then agregar ((B, g), 0) acc else acc)
            reglas nuevos
        else nuevos)"

definition cerrar_paso :: "regla list \<Rightarrow> item list \<times> bool \<Rightarrow> item list \<times> bool" where
  "cerrar_paso reglas s =
     (case s of (items, c) \<Rightarrow>
        (let nuevos = fold (nuevos_de_item reglas items) items [];
             items' = items @ nuevos
         in (items', length items' > length items)))"

definition cerrar_item :: "regla list \<Rightarrow> argumento \<Rightarrow> string set \<Rightarrow> item list resultado" where
  "cerrar_item reglas arg N =
     (case arg of
        UnItem it \<Rightarrow>
          (case while_option snd (cerrar_paso reglas) ([it], True) of
             None \<Rightarrow> NoTermina
           | Some (items, c) \<Rightarrow> Devuelve items)
      | UnConjunto fs \<Rightarrow> Lanza (if length fs = 2 then TypeError else ValueError))"

definition avanzar :: "item list \<Rightarrow> string \<Rightarrow> item list" where
  "avanzar estado simbolo =
     fold (\<lambda>((A, d), p) acc.
             if p < length d \<and> [d ! p] = simbolo then agregar ((A, d), p + 1) acc else acc)
       estado []"

definition ir_a :: "regla list \<Rightarrow> item list \<Rightarrow> string \<Rightarrow> string set \<Rightarrow> item list resultado" where
  "ir_a reglas estado simbolo N =
     (if avanzar estado simbolo \<noteq> [] then cerrar_item reglas (UnConjunto (avanzar estado simbolo)) N
      else Devuelve [])"

section \<open>The canonical collection\<close>

text \<open>The same loop stands in \<^verbatim>\<open>es_slr1\<close> and in \<^verbatim>\<open>construir_tabla_slr1\<close>. The
  augmented non-terminal is \<^verbatim>\<open>simbolo_inicial + "'"\<close>.\<close>

definition aumentado :: "string \<Rightarrow> string" where
  "aumentado S = S @ [CHR 0x27]"

definition simbolos_tras_punto :: "item list \<Rightarrow> string list" where
  "simbolos_tras_punto estado =
     fold (\<lambda>((A, d), p) acc. if p < length d then agregar [d ! p] acc else acc) estado []"

definition contiene_estado :: "item list list \<Rightarrow> item list \<Rightarrow> bool" where
  "contiene_estado estados e = (\<exists>e' \<in> set estados. set e' = set e)"

fun expandir ::
  "regla list \<Rightarrow> string set \<Rightarrow> item list \<Rightarrow> string list \<Rightarrow> item list list
     \<Rightarrow> item list list resultado" where
  "expandir reglas N estado [] estados = Devuelve estados"
| "expandir reglas N estado (X # Xs) estados =
     ligar (ir_a reglas estado X N)
       (\<lambda>siguiente_estado.
          expandir reglas N estado Xs
            (if siguiente_estado \<noteq> [] \<and> \<not> contiene_estado estados siguiente_estado
             then estados @ [siguiente_estado] else estados))"

fun quedan_estados :: "(item list list \<times> nat) resultado \<Rightarrow> bool" where
  "quedan_estados (Devuelve (estados, i)) = (i < length estados)"
| "quedan_estados (Lanza e) = False"
| "quedan_estados NoTermina = False"

definition coleccion_canonica :: "regla list \<Rightarrow> string \<Rightarrow> string set \<Rightarrow> item list list resultado" where
  "coleccion_canonica reglas S N =
     ligar (cerrar_item reglas (UnItem ((aumentado S, S), 0)) N)
       (\<lambda>item_inicial.
          case while_option quedan_estados
                 (\<lambda>r. ligar r (\<lambda>(estados, i).
                    ligar (expandir reglas N (estados ! i) (simbolos_tras_punto (estados ! i)) estados)
                      (\<lambda>estados'. Devuelve (estados', i + 1))))
                 (Devuelve ([item_inicial], 0)) of
            None \<Rightarrow> NoTermina
          | Some r \<Rightarrow> ligar r (\<lambda>(estados, i). Devuelve estados))"

section \<open>es\_slr1\<close>

text \<open>The conflict check over the states: \<^verbatim>\<open>reducciones\<close> is a list,
  \<^verbatim>\<open>desplazamientos\<close> a set; the result is the new value of \<^verbatim>\<open>conflictos\<close>.\<close>

definition reducciones_de :: "string \<Rightarrow> item list \<Rightarrow> regla list" where
  "reducciones_de S estado =
     map fst (filter (\<lambda>((A, d), p). p = length d \<and> A \<noteq> aumentado S) estado)"

definition desplazamientos_de :: "string set \<Rightarrow> item list \<Rightarrow> string set" where
  "desplazamientos_de T estado =
     set (map (\<lambda>((A, d), p). [d ! p]) (filter (\<lambda>((A, d), p). p < length d \<and> [d ! p] \<in> T) estado))"

fun revisar_reducciones :: "conjuntos \<Rightarrow> string set \<Rightarrow> regla list \<Rightarrow> bool \<Rightarrow> bool resultado" where
  "revisar_reducciones sg desp [] c = Devuelve c"
| "revisar_reducciones sg desp ((A, d) # rs) c =
     (case sg A of
        None \<Rightarrow> Lanza KeyError
      | Some Fo \<Rightarrow> revisar_reducciones sg desp rs (c \<or> (\<exists>t \<in> Fo. t \<in> desp)))"

definition revisar_estado ::
  "string \<Rightarrow> string set \<Rightarrow> conjuntos \<Rightarrow> item list \<Rightarrow> bool \<Rightarrow> bool resultado" where
  "revisar_estado S T sg estado c =
     ligar (revisar_reducciones sg (desplazamientos_de T estado) (reducciones_de S estado) c)
       (\<lambda>c'. Devuelve (c' \<or> length (reducciones_de S estado) > 1))"

fun revisar_estados ::
  "string \<Rightarrow> string set \<Rightarrow> conjuntos \<Rightarrow> item list list \<Rightarrow> bool \<Rightarrow> bool resultado" where
  "revisar_estados S T sg [] c = Devuelve c"
| "revisar_estados S T sg (estado # es) c =
     ligar (revisar_estado S T sg estado c) (\<lambda>c'. revisar_estados S T sg es c')"

definition es_slr1 ::
  "regla list \<Rightarrow> string \<Rightarrow> string set \<Rightarrow> string set \<Rightarrow> conjuntos \<Rightarrow> bool resultado" where
  "es_slr1 reglas S N T sg =
     ligar (coleccion_canonica reglas S N)
       (\<lambda>estados. ligar (revisar_estados S T sg estados False)
          (\<lambda>conflictos. Devuelve (\<not> conflictos)))"

section \<open>construir\_tabla\_slr1\<close>

text \<open>
  An action is the tuple \<^verbatim>\<open>('desplazar', j)\<close>, \<^verbatim>\<open>('reducir', r)\<close> or
  \<^verbatim>\<open>('aceptar', None)\<close>. The outer keys of both tables are the state indices, which
  the loop never leaves; a row is a dictionary keyed by the terminals (assigning to
  \<^verbatim>\<open>'$'\<close> creates the key when it is absent). \<^verbatim>\<open>list.index\<close> raises
  \<open>ValueError\<close> when nothing matches.
\<close>

datatype accion = Desplazar nat | Reducir nat | Aceptar

type_synonym tabla_accion = "nat \<Rightarrow> (string \<rightharpoonup> accion option)"
type_synonym tabla_goto = "nat \<Rightarrow> (string \<rightharpoonup> nat option)"

fun buscar_indice :: "('a \<Rightarrow> bool) \<Rightarrow> 'a list \<Rightarrow> nat \<Rightarrow> nat resultado" where
  "buscar_indice P [] n = Lanza ValueError"
| "buscar_indice P (x # xs) n = (if P x then Devuelve n else buscar_indice P xs (Suc n))"

definition reglas_ampliadas :: "regla list \<Rightarrow> string \<Rightarrow> item list" where
  "reglas_ampliadas reglas S = ((aumentado S, S), 0) # map (\<lambda>r. (r, 0)) reglas"

definition reducir_celdas ::
  "(string \<rightharpoonup> accion option) \<Rightarrow> string set \<Rightarrow> nat \<Rightarrow> (string \<rightharpoonup> accion option) resultado" where
  "reducir_celdas fila ts r =
     (if \<exists>t \<in> ts. fila t = None then Lanza KeyError
      else Devuelve (\<lambda>t. if t \<in> ts \<and> fila t = Some None then Some (Some (Reducir r)) else fila t))"

definition slr1_item ::
  "regla list \<Rightarrow> string \<Rightarrow> string set \<Rightarrow> string set \<Rightarrow> conjuntos \<Rightarrow> item list list \<Rightarrow> nat
     \<Rightarrow> item list \<Rightarrow> item \<Rightarrow> tabla_accion \<times> tabla_goto \<Rightarrow> (tabla_accion \<times> tabla_goto) resultado" where
  "slr1_item reglas S N T sg estados idx estado it s =
     (case it of ((A, d), p) \<Rightarrow> case s of (ta, tg) \<Rightarrow>
        if p < length d then
          (if [d ! p] \<in> T then
             ligar (ir_a reglas estado [d ! p] N)
               (\<lambda>siguiente. ligar (buscar_indice (\<lambda>e. set e = set siguiente) estados 0)
                  (\<lambda>j. Devuelve (ta(idx := (ta idx)([d ! p] \<mapsto> Some (Desplazar j))), tg)))
           else if [d ! p] \<in> N then
             ligar (ir_a reglas estado [d ! p] N)
               (\<lambda>siguiente. ligar (buscar_indice (\<lambda>e. set e = set siguiente) estados 0)
                  (\<lambda>j. Devuelve (ta, tg(idx := (tg idx)([d ! p] \<mapsto> Some j)))))
           else Devuelve (ta, tg))
        else if A = aumentado S then
          Devuelve (ta(idx := (ta idx)(''$'' \<mapsto> Some Aceptar)), tg)
        else
          ligar (buscar_indice (\<lambda>r. r = ((A, d), 0)) (reglas_ampliadas reglas S) 0)
            (\<lambda>r. case sg A of
                    None \<Rightarrow> Lanza KeyError
                  | Some Fo \<Rightarrow>
                      ligar (reducir_celdas (ta idx) Fo r)
                        (\<lambda>fila. Devuelve (ta(idx := fila), tg))))"

fun slr1_items ::
  "regla list \<Rightarrow> string \<Rightarrow> string set \<Rightarrow> string set \<Rightarrow> conjuntos \<Rightarrow> item list list \<Rightarrow> nat
     \<Rightarrow> item list \<Rightarrow> item list \<Rightarrow> tabla_accion \<times> tabla_goto \<Rightarrow> (tabla_accion \<times> tabla_goto) resultado" where
  "slr1_items reglas S N T sg estados idx estado [] s = Devuelve s"
| "slr1_items reglas S N T sg estados idx estado (it # its) s =
     ligar (slr1_item reglas S N T sg estados idx estado it s)
       (\<lambda>s'. slr1_items reglas S N T sg estados idx estado its s')"

fun slr1_estados ::
  "regla list \<Rightarrow> string \<Rightarrow> string set \<Rightarrow> string set \<Rightarrow> conjuntos \<Rightarrow> item list list \<Rightarrow> nat
     \<Rightarrow> item list list \<Rightarrow> tabla_accion \<times> tabla_goto \<Rightarrow> (tabla_accion \<times> tabla_goto) resultado" where
  "slr1_estados reglas S N T sg estados idx [] s = Devuelve s"
| "slr1_estados reglas S N T sg estados idx (estado # es) s =
     ligar (slr1_items reglas S N T sg estados idx estado estado s)
       (\<lambda>s'. slr1_estados reglas S N T sg estados (Suc idx) es s')"

definition construir_tabla_slr1 ::
  "regla list \<Rightarrow> string \<Rightarrow> string set \<Rightarrow> string set \<Rightarrow> conjuntos
     \<Rightarrow> (tabla_accion \<times> tabla_goto \<times> item list list \<times> item list) resultado" where
  "construir_tabla_slr1 reglas S N T sg =
     ligar (coleccion_canonica reglas S N)
       (\<lambda>estados.
          ligar (slr1_estados reglas S N T sg estados 0 estados
                   (\<lambda>i. como_dict T (\<lambda>t. None), \<lambda>i. como_dict N (\<lambda>A. None)))
            (\<lambda>(ta, tg). Devuelve (ta, tg, estados, reglas_ampliadas reglas S)))"

section \<open>leer\_gramatica\<close>

text \<open>
  The file is its list of lines, or \<open>None\<close> when it does not exist;
  \<^verbatim>\<open>readline()\<close> past the last line gives the empty string. \<^verbatim>\<open>str.strip()\<close>
  removes the characters for which \<^verbatim>\<open>str.isspace()\<close> holds, \<^verbatim>\<open>int\<close> reads an
  optional sign and decimal digits (single underscores between digits allowed) after
  stripping. \<^verbatim>\<open>exit()\<close> without an argument raises \<^verbatim>\<open>SystemExit(None)\<close>, which ends
  the process with status 0.
\<close>

definition es_espacio :: "char \<Rightarrow> bool" where
  "es_espacio c =
     (let n = (of_char c :: nat) in (9 \<le> n \<and> n \<le> 13) \<or> (28 \<le> n \<and> n \<le> 32) \<or> n = 133 \<or> n = 160)"

definition quitar_espacios :: "string \<Rightarrow> string" where
  "quitar_espacios s = rev (dropWhile es_espacio (rev (dropWhile es_espacio s)))"

fun dividir_flecha :: "string \<Rightarrow> string \<Rightarrow> string list" where
  "dividir_flecha acc [] = [acc]"
| "dividir_flecha acc [c] = [acc @ [c]]"
| "dividir_flecha acc (c # d # cs) =
     (if c = CHR ''-'' \<and> d = CHR ''>'' then acc # dividir_flecha [] cs
      else dividir_flecha (acc @ [c]) (d # cs))"

fun dividir_espacio :: "string \<Rightarrow> string \<Rightarrow> string list" where
  "dividir_espacio acc [] = [acc]"
| "dividir_espacio acc (c # cs) =
     (if c = CHR '' '' then acc # dividir_espacio [] cs else dividir_espacio (acc @ [c]) cs)"

definition es_digito :: "char \<Rightarrow> bool" where
  "es_digito c = (48 \<le> (of_char c :: nat) \<and> (of_char c :: nat) \<le> 57)"

fun valor_digitos :: "nat \<Rightarrow> string \<Rightarrow> nat option" where
  "valor_digitos acc [] = None"
| "valor_digitos acc [c] = (if es_digito c then Some (10 * acc + (of_char c - 48)) else None)"
| "valor_digitos acc (c # d # cs) =
     (if es_digito c then
        (if d = CHR ''_'' then valor_digitos (10 * acc + (of_char c - 48)) cs
         else valor_digitos (10 * acc + (of_char c - 48)) (d # cs))
      else None)"

definition entero :: "string \<Rightarrow> int option" where
  "entero s =
     (case quitar_espacios s of
        [] \<Rightarrow> None
      | c # cs \<Rightarrow>
          if c = CHR ''-'' then map_option (\<lambda>n. - int n) (valor_digitos 0 cs)
          else if c = CHR ''+'' then map_option int (valor_digitos 0 cs)
          else map_option int (valor_digitos 0 (c # cs)))"

text \<open>One grammar line: \<open>None\<close> is "Formato incorrecto" followed by \<^verbatim>\<open>exit()\<close>;
  otherwise the left-hand side and the rules appended, one for each element of
  \<^verbatim>\<open>partes[1].split(" ")\<close>.\<close>

definition leer_regla :: "string \<Rightarrow> (string \<times> regla list) option" where
  "leer_regla linea =
     (case dividir_flecha [] (quitar_espacios linea) of
        [a, b] \<Rightarrow>
          Some (quitar_espacios a,
                map (\<lambda>derivacion. (quitar_espacios a, if derivacion = ''e'' then [] else derivacion))
                  (dividir_espacio [] (quitar_espacios b)))
      | _ \<Rightarrow> None)"

record globales =
  reglas_gramatica :: "regla list"
  cadenas_a_procesar :: "string list"
  simbolo_inicial :: "string option"

fun leer_reglas :: "nat \<Rightarrow> bool \<Rightarrow> string list \<Rightarrow> regla list \<times> string option
     \<Rightarrow> ((regla list \<times> string option) \<times> string list) option" where
  "leer_reglas 0 primera ls s = Some (s, ls)"
| "leer_reglas (Suc n) primera ls (rs, S) =
     (case leer_regla (case ls of [] \<Rightarrow> [] | l # ls' \<Rightarrow> l) of
        None \<Rightarrow> None
      | Some (A, nuevas) \<Rightarrow> leer_reglas n False (tl ls) (rs @ nuevas, if primera then Some A else S))"

fun leer_cadenas :: "string list \<Rightarrow> string list" where
  "leer_cadenas [] = []"
| "leer_cadenas (l # ls) =
     (if quitar_espacios l @ ''$'' = ''e$'' then []
      else (quitar_espacios l @ ''$'') # leer_cadenas ls)"

datatype salida = Estado nat

definition leer_gramatica :: "string list option \<Rightarrow> globales \<Rightarrow> salida + globales" where
  "leer_gramatica archivo g =
     (case archivo of
        None \<Rightarrow> Inl (Estado 0)
      | Some lineas \<Rightarrow>
          (case entero (case lineas of [] \<Rightarrow> [] | l # ls \<Rightarrow> l) of
             None \<Rightarrow> Inl (Estado 0)
           | Some numero_reglas \<Rightarrow>
               (case leer_reglas (nat numero_reglas) True (tl lineas) ([], simbolo_inicial g) of
                  None \<Rightarrow> Inl (Estado 0)
                | Some ((rs, S), resto) \<Rightarrow>
                    Inr \<lparr>reglas_gramatica = rs, cadenas_a_procesar = leer_cadenas resto,
                         simbolo_inicial = S\<rparr>)))"

section \<open>The engines chained, and the grammars used below\<close>

text \<open>
  \<^verbatim>\<open>main\<close> chains the engines on the loaded grammar: the alphabets, FIRST, FOLLOW, the
  LL(1) table and its conflict flag. \<open>analisis_ll1\<close> is that chain followed by
  \<^verbatim>\<open>analizar_ll1\<close> on each string of a list; it returns the conflict flag and the
  verdicts. \<open>analisis_siguientes\<close> stops after FOLLOW.
\<close>

definition analisis_siguientes :: "regla list \<Rightarrow> string \<Rightarrow> (conjuntos \<times> conjuntos) resultado" where
  "analisis_siguientes reglas S =
     (case identificar_simbolos reglas of (N, T) \<Rightarrow>
        ligar (calcular_conjuntos_primeros reglas N T)
          (\<lambda>pr. ligar (calcular_conjuntos_siguientes reglas S N T pr)
             (\<lambda>sg. Devuelve (pr, sg))))"

fun analizar_todas ::
  "string \<Rightarrow> tabla \<Rightarrow> string set \<Rightarrow> string set \<Rightarrow> string list \<Rightarrow> bool list resultado" where
  "analizar_todas S tb N T [] = Devuelve []"
| "analizar_todas S tb N T (cadena # cs) =
     ligar (analizar_ll1 S cadena tb N T)
       (\<lambda>b. ligar (analizar_todas S tb N T cs) (\<lambda>bs. Devuelve (b # bs)))"

definition analisis_ll1 :: "regla list \<Rightarrow> string \<Rightarrow> string list \<Rightarrow> (bool \<times> bool list) resultado" where
  "analisis_ll1 reglas S cadenas =
     (case identificar_simbolos reglas of (N, T) \<Rightarrow>
        ligar (analisis_siguientes reglas S)
          (\<lambda>(pr, sg). ligar (construir_tabla_ll1 reglas N T pr sg)
             (\<lambda>(tb, conflictos). ligar (analizar_todas S tb N T cadenas)
                (\<lambda>bs. Devuelve (conflictos, bs)))))"

text \<open>Scenario D of the specification: \<open>S \<rightarrow> a S b | \<epsilon>\<close>.\<close>

definition gramatica_D :: "regla list" where
  "gramatica_D = [(''S'', ''aSb''), (''S'', [])]"

text \<open>\<open>S \<rightarrow> A B c\<close>, \<open>A \<rightarrow> a\<close>, \<open>B \<rightarrow> b | \<epsilon>\<close>: a non-terminal followed by a nullable
  one and then a terminal.\<close>

definition gramatica_ABc :: "regla list" where
  "gramatica_ABc = [(''S'', ''ABc''), (''A'', ''a''), (''B'', ''b''), (''B'', [])]"

text \<open>\<open>S \<rightarrow> A a\<close>, \<open>X \<rightarrow> B\<close>, \<open>A \<rightarrow> B\<close>, \<open>B \<rightarrow> a | \<epsilon>\<close>.\<close>

definition gramatica_XB :: "regla list" where
  "gramatica_XB = [(''S'', ''Aa''), (''X'', ''B''), (''A'', ''B''), (''B'', ''a''), (''B'', [])]"

text \<open>\<open>S \<rightarrow> A a | B b\<close>, \<open>A \<rightarrow> \<epsilon>\<close>, \<open>B \<rightarrow> \<epsilon>\<close>.\<close>

definition gramatica_AB :: "regla list" where
  "gramatica_AB = [(''S'', ''Aa''), (''S'', ''Bb''), (''A'', []), (''B'', [])]"

text \<open>A right-hand side that begins with the character \<open>e\<close>.\<close>

definition gramatica_ea :: "regla list" where
  "gramatica_ea = [(''S'', ''ea'')]"

section \<open>Notions of the specification\<close>

text \<open>
  The predict set of a rule, in the specification's words: FIRST of the right-hand side
  (the helper walk of the table builder) without \<open>\<epsilon>\<close>, plus FOLLOW of the left-hand
  side when the right-hand side is nullable. A rule overlaps itself when it is nullable
  and a terminal is both in FIRST of its right-hand side and in FOLLOW of its left-hand
  side.
\<close>

definition prediccion ::
  "string set \<Rightarrow> string set \<Rightarrow> conjuntos \<Rightarrow> conjuntos \<Rightarrow> regla \<Rightarrow> string set" where
  "prediccion N T pr sg r =
     (case r of (A, d) \<Rightarrow>
        (case primeros_derivacion N T pr d {} of
           Devuelve F \<Rightarrow>
             (F - {''e''}) \<union> (if ''e'' \<in> F then (case sg A of Some Fo \<Rightarrow> Fo | None \<Rightarrow> {}) else {})
         | Lanza e \<Rightarrow> {}
         | NoTermina \<Rightarrow> {}))"

definition solapada ::
  "string set \<Rightarrow> string set \<Rightarrow> conjuntos \<Rightarrow> conjuntos \<Rightarrow> regla \<Rightarrow> bool" where
  "solapada N T pr sg r =
     (case r of (A, d) \<Rightarrow>
        (case primeros_derivacion N T pr d {} of
           Devuelve F \<Rightarrow>
             ''e'' \<in> F \<and> (case sg A of Some Fo \<Rightarrow> (F - {''e''}) \<inter> Fo \<noteq> {} | None \<Rightarrow> False)
         | Lanza e \<Rightarrow> False
         | NoTermina \<Rightarrow> False))"

text \<open>Two different productions of one non-terminal with intersecting predict sets.\<close>

definition par_en_conflicto ::
  "string set \<Rightarrow> string set \<Rightarrow> conjuntos \<Rightarrow> conjuntos \<Rightarrow> regla list \<Rightarrow> bool" where
  "par_en_conflicto N T pr sg reglas =
     (\<exists>r \<in> set reglas. \<exists>r' \<in> set reglas.
        r \<noteq> r' \<and> fst r = fst r' \<and> prediccion N T pr sg r \<inter> prediccion N T pr sg r' \<noteq> {})"

text \<open>Two rules at different places of the list, of one non-terminal, with intersecting
  predict sets.\<close>

definition posiciones_en_conflicto ::
  "string set \<Rightarrow> string set \<Rightarrow> conjuntos \<Rightarrow> conjuntos \<Rightarrow> regla list \<Rightarrow> bool" where
  "posiciones_en_conflicto N T pr sg reglas =
     (\<exists>j < length reglas. \<exists>i < j.
        fst (reglas ! i) = fst (reglas ! j) \<and>
        prediccion N T pr sg (reglas ! i) \<inter> prediccion N T pr sg (reglas ! j) \<noteq> {})"

text \<open>A grammar line \<open>A -> t\<^sub>1 t\<^sub>2 \<dots> t\<^sub>n\<close>: the tokens joined by single spaces.\<close>

fun intercalar :: "string list \<Rightarrow> string" where
  "intercalar [] = []"
| "intercalar [t] = t"
| "intercalar (t # u # ts) = t @ '' '' @ intercalar (u # ts)"

definition linea_de_regla :: "string \<Rightarrow> string list \<Rightarrow> string" where
  "linea_de_regla A tokens = A @ '' -> '' @ intercalar tokens"

text \<open>A cell of the LL(1) table is populated when its keys exist and it holds a
  right-hand side.\<close>

definition poblada :: "tabla \<Rightarrow> string \<Rightarrow> string \<Rightarrow> bool" where
  "poblada tb A t = (\<exists>fila d. tb A = Some fila \<and> fila t = Some (Some d))"

text \<open>The FIRST and FOLLOW maps that the engines compute for \<open>gramatica_XB\<close>.\<close>

definition primeros_XB :: conjuntos where
  "primeros_XB =
     [''S'' \<mapsto> {''a''}, ''X'' \<mapsto> {''e'', ''a''}, ''A'' \<mapsto> {''e'', ''a''}, ''B'' \<mapsto> {''e'', ''a''}]"

definition siguientes_XB :: conjuntos where
  "siguientes_XB = [''S'' \<mapsto> {''$''}, ''X'' \<mapsto> {}, ''A'' \<mapsto> {''a''}, ''B'' \<mapsto> {}]"

text \<open>The finite set that bounds every FOLLOW set, and the measure that a pass with the
  flag set decreases.\<close>

definition cota_siguientes :: "string set \<Rightarrow> string set \<Rightarrow> conjuntos \<Rightarrow> string set" where
  "cota_siguientes N T pr =
     insert ''$'' (T \<union> (\<Union>k \<in> N. case pr k of Some F \<Rightarrow> F | None \<Rightarrow> {}))"

definition medida_siguientes :: "string set \<Rightarrow> string set \<Rightarrow> estado_sig resultado \<Rightarrow> nat" where
  "medida_siguientes N U r =
     (case r of
        Devuelve (sg, vis, c) \<Rightarrow> 2 * (\<Sum>k \<in> N. card (U - sg k)) + (if c then 1 else 0)
      | Lanza e \<Rightarrow> 0
      | NoTermina \<Rightarrow> 0)"

section \<open>Evaluation of the recognizer, FOLLOW, the item sets and the loader\<close>

lemmas evaluar_slr1 =
  cerrar_item_def cerrar_paso_def nuevos_de_item_def agregar_def aumentado_def
  simbolos_tras_punto_def ir_a_def avanzar_def coleccion_canonica_def es_slr1_def
  construir_tabla_slr1_def revisar_estado_def reducciones_de_def desplazamientos_de_def
  contiene_estado_def es_mayuscula_def while_option_unfold

text \<open>
  C1. The recognizer's stack starts as the list \<open>[S, $]\<close> and the cursor at 0, but the
  top of the stack is the last element of the list: the first top examined is \<open>$\<close>, not
  \<open>S\<close>. On the input \<open>ab$\<close> the first iteration compares \<open>$\<close> with \<open>a\<close> and rejects,
  whatever the table holds.
\<close>

theorem c1_primer_tope:
  "pila_inicial S = [S, ''$''] \<and> tope (pila_inicial S) = ''$'' \<and>
   ll1_paso ''ab$'' tb {''$'', ''b'', ''a''} (pila_inicial ''S'', 0) = Devuelve (Inr False)"
  by (simp add: pila_inicial_def tope_def ll1_paso_def)

text \<open>
  C2. For scenario D (\<open>S \<rightarrow> a S b | \<epsilon>\<close>) the table builder records no conflict, and
  the recognizer returns \<open>False\<close> on each of \<open>$\<close>, \<open>ab$\<close>, \<open>aabb$\<close>, \<open>aaabbb$\<close>,
  \<open>abb$\<close> and \<open>aab$\<close>: the four strings of the language are rejected too.
\<close>

theorem c2_escenario_D:
  "analisis_ll1 gramatica_D ''S'' [''$'', ''ab$'', ''aabb$'', ''aaabbb$'', ''abb$'', ''aab$'']
     = Devuelve (False, [False, False, False, False, False, False])"
  by code_simp

text \<open>
  C3. For \<open>S \<rightarrow> A B c\<close>, \<open>A \<rightarrow> a\<close>, \<open>B \<rightarrow> b | \<epsilon>\<close> the FOLLOW engine returns
  \<open>FOLLOW(A) = {b, $}\<close>, while FIRST of the suffix \<open>B c\<close> after \<open>A\<close> is \<open>{c, b}\<close>
  and does not contain \<open>\<epsilon>\<close>: \<open>c\<close> is missing from \<open>FOLLOW(A)\<close>, and \<open>$\<close> was copied
  from \<open>FOLLOW(S)\<close> although the suffix is not nullable.
\<close>

theorem c3_siguientes_ABc:
  "ligar (analisis_siguientes gramatica_ABc ''S'')
     (\<lambda>(pr, sg).
        ligar (primeros_derivacion {''S'', ''A'', ''B''} {''$'', ''a'', ''b'', ''c''} pr ''Bc'' {})
          (\<lambda>F. Devuelve (sg ''A'', F)))
     = Devuelve (Some {''b'', ''$''}, {''c'', ''b''})"
  by code_simp

text \<open>
  C5. For \<open>S \<rightarrow> A a | B b\<close>, \<open>A \<rightarrow> \<epsilon>\<close>, \<open>B \<rightarrow> \<epsilon>\<close> the initial item set holds the
  two completed items \<open>A \<rightarrow> \<cdot>\<close> and \<open>B \<rightarrow> \<cdot>\<close>, with \<open>FOLLOW(A) = {a}\<close> and
  \<open>FOLLOW(B) = {b}\<close> disjoint, and offers no shift on a terminal; the conflict check over
  this state sets the conflict flag.
\<close>

theorem c5_reduce_reduce_disjuntos:
  "ligar (analisis_siguientes gramatica_AB ''S'')
     (\<lambda>(pr, sg).
        ligar (cerrar_item gramatica_AB (UnItem ((aumentado ''S'', ''S''), 0)) {''S'', ''A'', ''B''})
          (\<lambda>I0. ligar (revisar_estados ''S'' {''$'', ''a'', ''b''} sg [I0] False)
             (\<lambda>conflictos. Devuelve (I0, sg ''A'', sg ''B'', conflictos))))
     = Devuelve
         ([((aumentado ''S'', ''S''), 0), ((''S'', ''Aa''), 0), ((''S'', ''Bb''), 0),
           ((''A'', []), 0), ((''B'', []), 0)],
          Some {''a''}, Some {''b''}, True)"
  by code_simp

text \<open>
  C6. For scenario D, whatever the alphabets and the FOLLOW map passed, both
  \<^verbatim>\<open>es_slr1\<close> and \<^verbatim>\<open>construir_tabla_slr1\<close> raise \<open>ValueError\<close> while they enumerate
  the item sets: the predicate returns no verdict and the builder reaches no cell.
\<close>

theorem c6_slr1_lanzan:
  "es_slr1 gramatica_D ''S'' N T sg = Lanza ValueError \<and>
   construir_tabla_slr1 gramatica_D ''S'' N T sg = Lanza ValueError"
  by (simp add: gramatica_D_def evaluar_slr1)

text \<open>
  C9. For scenario D the enumeration of the canonical collection ends in \<open>ValueError\<close>
  at its first goto instead of reaching a fixpoint; and the FIRST iteration does not
  return on the right-hand side \<open>ea\<close>, whose first character is in neither alphabet.
\<close>

theorem c9_coleccion_y_primeros:
  "coleccion_canonica gramatica_D ''S'' N = Lanza ValueError \<and>
   calcular_conjuntos_primeros gramatica_ea {''S''} {''$'', ''a''} = NoTermina"
  by (simp add: gramatica_D_def gramatica_ea_def evaluar_slr1 calcular_conjuntos_primeros_def
      primeros_bucle_def primeros_regla_def)

text \<open>
  C10. When the grammar file is missing, and when its first line is not an integer, the
  loader ends the process with exit status 0.
\<close>

theorem c10_estado_de_salida:
  "leer_gramatica None g = Inl (Estado 0) \<and> leer_gramatica (Some [''abc'']) g = Inl (Estado 0)"
  by (simp add: leer_gramatica_def entero_def quitar_espacios_def es_espacio_def es_digito_def)

section \<open>The conflict flag of the LL(1) table builder\<close>

text \<open>
  C4 as stated fails. For \<open>S \<rightarrow> A a\<close>, \<open>X \<rightarrow> B\<close>, \<open>A \<rightarrow> B\<close>, \<open>B \<rightarrow> a | \<epsilon>\<close>, with the
  FIRST and FOLLOW maps the engines compute, the builder records a conflict although no
  two productions of one non-terminal have intersecting predict sets, neither as different
  productions nor as different places of the list: the rule \<open>A \<rightarrow> B\<close> assigns the cell
  \<open>(A, a)\<close> twice.
\<close>

theorem c4_conflicto_sin_par:
  "(case identificar_simbolos gramatica_XB of (N, T) \<Rightarrow>
      ligar (analisis_siguientes gramatica_XB ''S'')
        (\<lambda>(pr, sg). ligar (construir_tabla_ll1 gramatica_XB N T pr sg)
           (\<lambda>(tb, conflictos).
              Devuelve (conflictos, par_en_conflicto N T pr sg gramatica_XB,
                        posiciones_en_conflicto N T pr sg gramatica_XB))))
     = Devuelve (True, False, False)"
  by code_simp

lemma ligar_devuelve:
  "ligar m f = Devuelve y \<Longrightarrow> \<exists>x. m = Devuelve x \<and> f x = Devuelve y"
  by (cases m) auto

lemma asignar_celdas_efecto:
  assumes "asignar_celdas (tb, c) A ts d = Devuelve (tb', c')"
  shows "(\<forall>B t. poblada tb' B t \<longleftrightarrow> poblada tb B t \<or> (B = A \<and> t \<in> ts))"
    and "c' \<longleftrightarrow> c \<or> (\<exists>t \<in> ts. poblada tb A t)"
proof -
  show "\<forall>B t. poblada tb' B t \<longleftrightarrow> poblada tb B t \<or> (B = A \<and> t \<in> ts)"
  proof (cases "ts = {}")
    case True
    with assms show ?thesis by (simp add: asignar_celdas_def)
  next
    case False
    with assms obtain fila where f: "tb A = Some fila" and k: "\<forall>t \<in> ts. fila t \<noteq> None"
      and tb': "tb' = tb(A \<mapsto> (\<lambda>t. if t \<in> ts then Some (Some d) else fila t))"
      by (auto simp: asignar_celdas_def split: option.splits if_splits)
    show ?thesis unfolding tb' poblada_def using f by auto
  qed
  show "c' \<longleftrightarrow> c \<or> (\<exists>t \<in> ts. poblada tb A t)"
  proof (cases "ts = {}")
    case True
    with assms show ?thesis by (simp add: asignar_celdas_def)
  next
    case False
    with assms obtain fila where f: "tb A = Some fila" and k: "\<forall>t \<in> ts. fila t \<noteq> None"
      and c': "c' = (c \<or> (\<exists>t \<in> ts. fila t \<noteq> Some None))"
      by (auto simp: asignar_celdas_def split: option.splits if_splits)
    have "(\<exists>t \<in> ts. fila t \<noteq> Some None) \<longleftrightarrow> (\<exists>t \<in> ts. poblada tb A t)"
      using f k unfolding poblada_def by (metis option.exhaust option.inject option.distinct(1))
    with c' show ?thesis by simp
  qed
qed

lemma tabla_regla_efecto:
  assumes "tabla_regla N T pr sg r (tb, c) = Devuelve (tb', c')"
  shows "(\<forall>B t. poblada tb' B t \<longleftrightarrow> poblada tb B t \<or> (B = fst r \<and> t \<in> prediccion N T pr sg r))"
    and "c' \<longleftrightarrow> c \<or> (\<exists>t \<in> prediccion N T pr sg r. poblada tb (fst r) t) \<or> solapada N T pr sg r"
proof -
  obtain A d where r: "r = (A, d)" by (cases r)
  from assms r obtain F where F: "primeros_derivacion N T pr d {} = Devuelve F"
    and 1: "ligar (asignar_celdas (tb, c) A (F - {''e''}) d)
             (\<lambda>s'. if ''e'' \<in> F then
                      (case sg A of None \<Rightarrow> Lanza KeyError | Some Fo \<Rightarrow> asignar_celdas s' A Fo d)
                    else Devuelve s') = Devuelve (tb', c')"
    by (auto simp: tabla_regla_def dest!: ligar_devuelve)
  from ligar_devuelve[OF 1] obtain tb1 c1 where
    a1: "asignar_celdas (tb, c) A (F - {''e''}) d = Devuelve (tb1, c1)"
    and 2: "(if ''e'' \<in> F then
               (case sg A of None \<Rightarrow> Lanza KeyError | Some Fo \<Rightarrow> asignar_celdas (tb1, c1) A Fo d)
             else Devuelve (tb1, c1)) = Devuelve (tb', c')"
    by auto
  note e1 = asignar_celdas_efecto[OF a1]
  show "\<forall>B t. poblada tb' B t \<longleftrightarrow> poblada tb B t \<or> (B = fst r \<and> t \<in> prediccion N T pr sg r)"
  proof (cases "''e'' \<in> F")
    case False
    with 2 have "tb' = tb1" by simp
    with e1(1) False F r show ?thesis by (simp add: prediccion_def)
  next
    case True
    with 2 obtain Fo where Fo: "sg A = Some Fo" and a2: "asignar_celdas (tb1, c1) A Fo d = Devuelve (tb', c')"
      by (cases "sg A") auto
    from asignar_celdas_efecto(1)[OF a2] e1(1) True F Fo r show ?thesis
      by (auto simp: prediccion_def)
  qed
  show "c' \<longleftrightarrow> c \<or> (\<exists>t \<in> prediccion N T pr sg r. poblada tb (fst r) t) \<or> solapada N T pr sg r"
  proof (cases "''e'' \<in> F")
    case False
    with 2 have "c' = c1" by simp
    with e1(2) False F r show ?thesis by (simp add: prediccion_def solapada_def)
  next
    case True
    with 2 obtain Fo where Fo: "sg A = Some Fo" and a2: "asignar_celdas (tb1, c1) A Fo d = Devuelve (tb', c')"
      by (cases "sg A") auto
    from asignar_celdas_efecto(2)[OF a2] e1 True F Fo r show ?thesis
      by (auto simp: prediccion_def solapada_def)
  qed
qed

lemma ex_menor_Suc: "(\<exists>j<Suc n. R j) \<longleftrightarrow> R 0 \<or> (\<exists>j<n. R (Suc j))"
  by (rule Ex_less_Suc2)

lemma indices_Cons:
  "(\<exists>j<length (r # rs). A ((r # rs) ! j) \<or> (\<exists>i<j. E ((r # rs) ! i) ((r # rs) ! j)) \<or> S ((r # rs) ! j)) \<longleftrightarrow>
   A r \<or> S r \<or> (\<exists>j<length rs. (A (rs ! j) \<or> E r (rs ! j)) \<or> (\<exists>i<j. E (rs ! i) (rs ! j)) \<or> S (rs ! j))"
proof -
  have "(\<exists>j<length (r # rs). A ((r # rs) ! j) \<or> (\<exists>i<j. E ((r # rs) ! i) ((r # rs) ! j)) \<or> S ((r # rs) ! j)) \<longleftrightarrow>
     (A r \<or> S r) \<or> (\<exists>j<length rs. A (rs ! j) \<or> (\<exists>i<Suc j. E ((r # rs) ! i) (rs ! j)) \<or> S (rs ! j))"
    by (simp add: ex_menor_Suc[of "length rs"])
  also have "\<dots> \<longleftrightarrow> (A r \<or> S r) \<or> (\<exists>j<length rs. A (rs ! j) \<or> (E r (rs ! j) \<or> (\<exists>i<j. E (rs ! i) (rs ! j))) \<or> S (rs ! j))"
    by (simp only: ex_menor_Suc nth_Cons_0 nth_Cons_Suc)
  also have "\<dots> \<longleftrightarrow> A r \<or> S r \<or> (\<exists>j<length rs. (A (rs ! j) \<or> E r (rs ! j)) \<or> (\<exists>i<j. E (rs ! i) (rs ! j)) \<or> S (rs ! j))"
    by (simp only: disj_assoc)
  finally show ?thesis .
qed

lemma tabla_reglas_efecto:
  "tabla_reglas N T pr sg rs (tb, c) = Devuelve (tb', c') \<Longrightarrow>
     (\<forall>B t. poblada tb' B t \<longleftrightarrow> poblada tb B t \<or> (\<exists>r \<in> set rs. fst r = B \<and> t \<in> prediccion N T pr sg r)) \<and>
     (c' \<longleftrightarrow> c \<or> (\<exists>j < length rs.
          (\<exists>t \<in> prediccion N T pr sg (rs ! j). poblada tb (fst (rs ! j)) t) \<or>
          (\<exists>i < j. fst (rs ! i) = fst (rs ! j) \<and>
              prediccion N T pr sg (rs ! i) \<inter> prediccion N T pr sg (rs ! j) \<noteq> {}) \<or>
          solapada N T pr sg (rs ! j)))"
proof (induction rs arbitrary: tb c)
  case Nil
  then show ?case by simp
next
  case (Cons r rs)
  let ?p = "prediccion N T pr sg"
  from Cons.prems obtain tb1 c1 where
    s: "tabla_regla N T pr sg r (tb, c) = Devuelve (tb1, c1)"
    and rest: "tabla_reglas N T pr sg rs (tb1, c1) = Devuelve (tb', c')"
    by (auto dest!: ligar_devuelve)
  note e = tabla_regla_efecto[OF s]
  note ih = Cons.IH[OF rest]
  define A where "A = (\<lambda>x. \<exists>t \<in> ?p x. poblada tb (fst x) t)"
  define A1 where "A1 = (\<lambda>x. \<exists>t \<in> ?p x. poblada tb1 (fst x) t)"
  define E where "E = (\<lambda>y x. fst y = fst x \<and> ?p y \<inter> ?p x \<noteq> {})"
  define S where "S = solapada N T pr sg"
  have pob: "\<forall>B t. poblada tb' B t \<longleftrightarrow> poblada tb B t \<or> (\<exists>r' \<in> set (r # rs). fst r' = B \<and> t \<in> ?p r')"
  proof (intro allI)
    fix B t
    from ih have "poblada tb' B t \<longleftrightarrow> poblada tb1 B t \<or> (\<exists>r' \<in> set rs. fst r' = B \<and> t \<in> ?p r')"
      by blast
    moreover from e(1) have "poblada tb1 B t \<longleftrightarrow> poblada tb B t \<or> (B = fst r \<and> t \<in> ?p r)"
      by blast
    ultimately show "poblada tb' B t \<longleftrightarrow> poblada tb B t \<or> (\<exists>r' \<in> set (r # rs). fst r' = B \<and> t \<in> ?p r')"
      by auto
  qed
  have A1: "\<And>x. A1 x \<longleftrightarrow> A x \<or> E r x"
  proof -
    fix x :: regla
    from e(1) have "\<And>t. poblada tb1 (fst x) t \<longleftrightarrow> poblada tb (fst x) t \<or> (fst x = fst r \<and> t \<in> ?p r)"
      by blast
    then show "A1 x \<longleftrightarrow> A x \<or> E r x" unfolding A1_def A_def E_def by auto
  qed
  from ih have "c' \<longleftrightarrow> c1 \<or> (\<exists>j<length rs. A1 (rs ! j) \<or> (\<exists>i<j. E (rs ! i) (rs ! j)) \<or> S (rs ! j))"
    unfolding A1_def E_def S_def by blast
  then have "c' \<longleftrightarrow> c1 \<or> (\<exists>j<length rs. (A (rs ! j) \<or> E r (rs ! j)) \<or> (\<exists>i<j. E (rs ! i) (rs ! j)) \<or> S (rs ! j))"
    by (simp only: A1)
  moreover from e(2) have "c1 \<longleftrightarrow> c \<or> A r \<or> S r"
    unfolding A_def S_def by blast
  ultimately have "c' \<longleftrightarrow> c \<or> (A r \<or> S r \<or> (\<exists>j<length rs. (A (rs ! j) \<or> E r (rs ! j)) \<or> (\<exists>i<j. E (rs ! i) (rs ! j)) \<or> S (rs ! j)))"
    by (simp only: disj_assoc)
  then have "c' \<longleftrightarrow> c \<or> (\<exists>j<length (r # rs). A ((r # rs) ! j) \<or> (\<exists>i<j. E ((r # rs) ! i) ((r # rs) ! j)) \<or> S ((r # rs) ! j))"
    by (simp only: indices_Cons[where A=A and r=r and rs=rs and E=E and S=S])
  then have "c' \<longleftrightarrow> c \<or> (\<exists>j < length (r # rs).
          (\<exists>t \<in> ?p ((r # rs) ! j). poblada tb (fst ((r # rs) ! j)) t) \<or>
          (\<exists>i < j. fst ((r # rs) ! i) = fst ((r # rs) ! j) \<and> ?p ((r # rs) ! i) \<inter> ?p ((r # rs) ! j) \<noteq> {}) \<or>
          solapada N T pr sg ((r # rs) ! j))"
    unfolding A_def E_def S_def .
  with pob show ?case by (intro conjI)
qed

lemma tabla_vacia_no_poblada: "\<not> poblada (tabla_vacia N T) A t"
  by (simp add: poblada_def tabla_vacia_def como_dict_def)

text \<open>
  C4, as the code has it. When the table builder returns, its conflict flag is set
  exactly when some cell was already populated at an assignment: two rules at different
  places of the list have the same left-hand side and intersecting predict sets, or one
  rule is nullable and a terminal of FIRST of its right-hand side is also in FOLLOW of its
  left-hand side. The cell need not hold a different production.
\<close>

theorem c4_conflicto_ll1:
  assumes "construir_tabla_ll1 reglas N T pr sg = Devuelve (tb, conflictos)"
  shows "conflictos \<longleftrightarrow>
           posiciones_en_conflicto N T pr sg reglas \<or> (\<exists>r \<in> set reglas. solapada N T pr sg r)"
proof -
  from tabla_reglas_efecto[OF assms[unfolded construir_tabla_ll1_def]]
  have "conflictos \<longleftrightarrow> (\<exists>j < length reglas.
          (\<exists>i < j. fst (reglas ! i) = fst (reglas ! j) \<and>
              prediccion N T pr sg (reglas ! i) \<inter> prediccion N T pr sg (reglas ! j) \<noteq> {}) \<or>
          solapada N T pr sg (reglas ! j))"
    by (simp add: tabla_vacia_no_poblada)
  also have "\<dots> \<longleftrightarrow> posiciones_en_conflicto N T pr sg reglas \<or> (\<exists>j < length reglas. solapada N T pr sg (reglas ! j))"
    unfolding posiciones_en_conflicto_def by blast
  also have "(\<exists>j < length reglas. solapada N T pr sg (reglas ! j)) \<longleftrightarrow> (\<exists>r \<in> set reglas. solapada N T pr sg r)"
    by (metis in_set_conv_nth)
  finally show ?thesis .
qed

theorem c4_conflicto_ll1_witness:
  "\<exists>tb. construir_tabla_ll1 gramatica_XB {''S'', ''X'', ''A'', ''B''} {''$'', ''a''} primeros_XB siguientes_XB
          = Devuelve (tb, True) \<and>
        (posiciones_en_conflicto {''S'', ''X'', ''A'', ''B''} {''$'', ''a''} primeros_XB siguientes_XB gramatica_XB \<or>
         (\<exists>r \<in> set gramatica_XB. solapada {''S'', ''X'', ''A'', ''B''} {''$'', ''a''} primeros_XB siguientes_XB r))"
proof -
  let ?r = "construir_tabla_ll1 gramatica_XB {''S'', ''X'', ''A'', ''B''} {''$'', ''a''} primeros_XB siguientes_XB"
  have "(case ?r of Devuelve (tb, c) \<Rightarrow> c | Lanza e \<Rightarrow> False | NoTermina \<Rightarrow> False)"
    by code_simp
  then obtain tb where eq: "?r = Devuelve (tb, True)"
    by (cases ?r) auto
  from c4_conflicto_ll1[OF eq] eq show ?thesis by blast
qed

section \<open>One grammar line\<close>

text \<open>
  C7 as stated fails. The line \<open>S -> a S b\<close>, three one-character tokens, is loaded as
  the three rules \<open>S \<rightarrow> a\<close>, \<open>S \<rightarrow> S\<close> and \<open>S \<rightarrow> b\<close>, not as the one rule
  \<open>S \<rightarrow> a S b\<close>: the alternatives of one left-hand side come from one line.
\<close>

theorem c7_una_linea_varias_reglas:
  "leer_regla (linea_de_regla ''S'' [''a'', ''S'', ''b'']) = Some (''S'', [(''S'', ''a''), (''S'', ''S''), (''S'', ''b'')]) \<and>
   leer_regla (linea_de_regla ''S'' [''a'', ''S'', ''b'']) \<noteq> Some (''S'', [(''S'', ''aSb'')])"
  by (simp add: leer_regla_def linea_de_regla_def quitar_espacios_def es_espacio_def)

lemma quitar_espacios_bordes:
  assumes "\<forall>x \<in> set p. es_espacio x" and "\<forall>x \<in> set q. es_espacio x"
    and "s \<noteq> []" and "\<not> es_espacio (hd s)" and "\<not> es_espacio (last s)"
  shows "quitar_espacios (p @ s @ q) = s"
proof -
  from assms(3,4) have d1: "dropWhile es_espacio s = s" by (cases s) auto
  from assms(1) have "dropWhile es_espacio (p @ s @ q) = dropWhile es_espacio (s @ q)"
    by (simp add: dropWhile_append2)
  also from assms(3,4) have "\<dots> = s @ q" by (cases s) auto
  finally have a: "dropWhile es_espacio (p @ s @ q) = s @ q" .
  from assms(3,5) have d2: "dropWhile es_espacio (rev s) = rev s" by (cases s rule: rev_cases) auto
  have "dropWhile es_espacio (rev q @ rev s) = dropWhile es_espacio (rev s)"
    by (rule dropWhile_append2) (use assms(2) in auto)
  with d2 have "dropWhile es_espacio (rev (s @ q)) = rev s" by simp
  with a show ?thesis by (simp add: quitar_espacios_def)
qed

lemma dividir_flecha_sin_mayor:
  "CHR ''>'' \<notin> set s \<Longrightarrow> dividir_flecha acc s = [acc @ s]"
  by (induction acc s rule: dividir_flecha.induct) auto

lemma dividir_flecha_en_flecha:
  "CHR ''>'' \<notin> set p \<Longrightarrow>
     dividir_flecha acc (p @ CHR ''-'' # CHR ''>'' # s) = (acc @ p) # dividir_flecha [] s"
proof (induction p arbitrary: acc)
  case Nil
  then show ?case by simp
next
  case (Cons c p)
  then show ?case by (cases p) auto
qed

lemma dividir_espacio_prefijo:
  "CHR '' '' \<notin> set t \<Longrightarrow> dividir_espacio acc (t @ s) = dividir_espacio (acc @ t) s"
  by (induction t arbitrary: acc) auto

lemma dividir_espacio_intercalar:
  "tokens \<noteq> [] \<Longrightarrow> \<forall>t \<in> set tokens. CHR '' '' \<notin> set t \<Longrightarrow>
     dividir_espacio acc (intercalar tokens) = (acc @ hd tokens) # tl tokens"
proof (induction tokens arbitrary: acc rule: intercalar.induct)
  case 1
  then show ?case by simp
next
  case (2 t)
  then show ?case using dividir_espacio_prefijo[of t acc "[]"] by simp
next
  case (3 t u ts)
  have "dividir_espacio acc (intercalar (t # u # ts)) = dividir_espacio (acc @ t) (CHR '' '' # intercalar (u # ts))"
    using 3(3) dividir_espacio_prefijo[of t acc "CHR '' '' # intercalar (u # ts)"] by simp
  also have "\<dots> = (acc @ t) # dividir_espacio [] (intercalar (u # ts))" by simp
  also have "dividir_espacio [] (intercalar (u # ts)) = u # ts"
    using 3(1)[of "[]"] 3(3) by simp
  finally show ?case by simp
qed

lemma espacio_es_espacio: "es_espacio (CHR '' '')"
  by (simp add: es_espacio_def)

lemma intercalar_sin:
  "\<forall>t \<in> set tokens. \<forall>x \<in> set t. P x \<Longrightarrow> P (CHR '' '') \<Longrightarrow> \<forall>x \<in> set (intercalar tokens). P x"
  by (induction tokens rule: intercalar.induct) auto

lemma intercalar_bordes:
  "tokens \<noteq> [] \<Longrightarrow> \<forall>t \<in> set tokens. t \<noteq> [] \<Longrightarrow>
     intercalar tokens \<noteq> [] \<and> hd (intercalar tokens) = hd (hd tokens) \<and>
     last (intercalar tokens) = last (last tokens)"
  by (induction tokens rule: intercalar.induct) auto

text \<open>
  C7, as the code has it. A grammar line \<open>A -> t\<^sub>1 t\<^sub>2 \<dots> t\<^sub>n\<close>, where \<open>A\<close> and the tokens
  are non-empty and contain neither white space nor \<open>>\<close> and the tokens are separated by
  single spaces, is loaded as \<open>n\<close> rules of \<open>A\<close>, one for each token and in their order:
  the characters of a token are the symbols of that right-hand side, and the token \<open>e\<close>
  gives the empty right-hand side.
\<close>

theorem c7_linea_da_alternativas:
  assumes A: "A \<noteq> []" "\<forall>x \<in> set A. \<not> es_espacio x \<and> x \<noteq> CHR ''>''"
    and tk: "tokens \<noteq> []" "\<forall>t \<in> set tokens. t \<noteq> [] \<and> (\<forall>x \<in> set t. \<not> es_espacio x \<and> x \<noteq> CHR ''>'')"
  shows "leer_regla (linea_de_regla A tokens) =
           Some (A, map (\<lambda>t. (A, if t = ''e'' then [] else t)) tokens)"
proof -
  let ?rhs = "intercalar tokens"
  from tk have ne: "\<forall>t \<in> set tokens. t \<noteq> []" by simp
  from intercalar_bordes[OF tk(1) ne] have r0: "?rhs \<noteq> []"
    and rh: "hd ?rhs = hd (hd tokens)" and rl: "last ?rhs = last (last tokens)" by auto
  from tk have hdtok: "hd tokens \<in> set tokens" "last tokens \<in> set tokens" by auto
  with tk(2) have "hd (hd tokens) \<in> set (hd tokens)" "last (last tokens) \<in> set (last tokens)"
    by auto
  with tk(2) hdtok rh rl have rb: "\<not> es_espacio (hd ?rhs)" "\<not> es_espacio (last ?rhs)" by auto
  have rg: "CHR ''>'' \<notin> set ?rhs"
    using intercalar_sin[where P = "\<lambda>x. x \<noteq> CHR ''>''" and tokens = tokens] tk(2) by auto
  have sp: "\<forall>t \<in> set tokens. CHR '' '' \<notin> set t"
    using tk(2) espacio_es_espacio by auto
  from A have Ab: "\<not> es_espacio (hd A)" "\<not> es_espacio (last A)" and Ag: "CHR ''>'' \<notin> set A"
    by auto
  have linea: "linea_de_regla A tokens = [] @ (A @ '' -> '' @ ?rhs) @ []"
    by (simp add: linea_de_regla_def)
  have "quitar_espacios (linea_de_regla A tokens) = A @ '' -> '' @ ?rhs"
    unfolding linea
    by (rule quitar_espacios_bordes) (use A Ab r0 rb in \<open>auto simp: hd_append\<close>)
  moreover have "dividir_flecha [] (A @ '' -> '' @ ?rhs) = [A @ '' '', '' '' @ ?rhs]"
  proof -
    have "dividir_flecha [] ((A @ '' '') @ CHR ''-'' # CHR ''>'' # ('' '' @ ?rhs))
            = ([] @ (A @ '' '')) # dividir_flecha [] ('' '' @ ?rhs)"
      by (rule dividir_flecha_en_flecha) (use Ag in auto)
    also have "dividir_flecha [] ('' '' @ ?rhs) = [[] @ ('' '' @ ?rhs)]"
      by (rule dividir_flecha_sin_mayor) (use rg in auto)
    finally show ?thesis by simp
  qed
  moreover have "quitar_espacios (A @ '' '') = A"
    using quitar_espacios_bordes[of "[]" "'' ''" A] A(1) Ab espacio_es_espacio by simp
  moreover have "quitar_espacios ('' '' @ ?rhs) = ?rhs"
    using quitar_espacios_bordes[of "'' ''" "[]" ?rhs] r0 rb espacio_es_espacio by simp
  moreover have "dividir_espacio [] ?rhs = tokens"
    using dividir_espacio_intercalar[OF tk(1) sp, of "[]"] tk(1) by simp
  ultimately show ?thesis by (simp add: leer_regla_def)
qed

theorem c7_linea_da_alternativas_witness:
  "leer_regla (linea_de_regla ''S'' [''aSb'', ''e'']) = Some (''S'', [(''S'', ''aSb''), (''S'', [])])"
proof -
  have "leer_regla (linea_de_regla ''S'' [''aSb'', ''e'']) =
          Some (''S'', map (\<lambda>t. (''S'', if t = ''e'' then [] else t)) [''aSb'', ''e''])"
    by (rule c7_linea_da_alternativas) (simp_all add: es_espacio_def)
  then show ?thesis by simp
qed

section \<open>The FOLLOW engine: termination and invariant\<close>

lemma ligar_no_termina:
  "ligar m f = NoTermina \<Longrightarrow> m = NoTermina \<or> (\<exists>x. m = Devuelve x \<and> f x = NoTermina)"
  by (cases m) auto

lemma ligar_lanza:
  "ligar m f = Lanza e \<Longrightarrow> m = Lanza e \<or> (\<exists>x. m = Devuelve x \<and> f x = Lanza e)"
  by (cases m) auto

lemma agregar_follow_efecto:
  assumes "agregar_follow N x A (sg, vis) = Devuelve (sg', vis', b)" and "\<forall>k. sg k \<subseteq> V"
  shows "(\<forall>k. sg k \<subseteq> sg' k) \<and> (\<forall>k. sg' k \<subseteq> V) \<and> (b \<longrightarrow> sg x \<subset> sg' x)"
proof (cases "vis x")
  case True
  with assms show ?thesis by (simp add: agregar_follow_def)
next
  case False
  with assms(1) have sg': "sg' = sg(x := sg x \<union> sg A)"
    and b: "b = (card (sg' x) > card (sg x))"
    by (auto simp: agregar_follow_def Let_def split: if_splits)
  from sg' assms(2) have m: "\<forall>k. sg k \<subseteq> sg' k" and v: "\<forall>k. sg' k \<subseteq> V" by auto
  have "b \<longrightarrow> sg x \<subset> sg' x"
  proof
    assume b
    with b have "sg x \<noteq> sg' x" by auto
    with m show "sg x \<subset> sg' x" by blast
  qed
  with m v show ?thesis by blast
qed

lemma agregar_follow_no_termina: "agregar_follow N x A s \<noteq> NoTermina"
  by (cases s) (auto simp: agregar_follow_def Let_def)

lemma agregar_follow_no_lanza: "A \<in> N \<Longrightarrow> agregar_follow N x A s \<noteq> Lanza e"
  by (cases s) (auto simp: agregar_follow_def Let_def)

lemma siguientes_posicion_efecto:
  assumes "siguientes_posicion N T pr A x y (sg, vis, c) = Devuelve (sg', vis', c')"
    and "T \<subseteq> V" and "\<forall>k F. k \<in> N \<longrightarrow> pr k = Some F \<longrightarrow> F - {''e''} \<subseteq> V" and "\<forall>k. sg k \<subseteq> V"
  shows "(\<forall>k. sg k \<subseteq> sg' k) \<and> (\<forall>k. sg' k \<subseteq> V) \<and> (c' \<longrightarrow> c \<or> (\<exists>k \<in> N. sg k \<subset> sg' k))"
proof (cases "[x] \<in> N")
  case False
  with assms show ?thesis by (simp add: siguientes_posicion_def)
next
  case xN: True
  show ?thesis
  proof (cases "[y] \<in> T")
    case True
    with xN assms(1) have sg': "sg' = sg([x] := insert [y] (sg [x]))"
      and c': "c' = (c \<or> card (sg' [x]) > card (sg [x]))"
      by (auto simp: siguientes_posicion_def Let_def)
    from sg' assms(2,4) True have m: "\<forall>k. sg k \<subseteq> sg' k" and v: "\<forall>k. sg' k \<subseteq> V" by auto
    have "c' \<longrightarrow> c \<or> (\<exists>k \<in> N. sg k \<subset> sg' k)"
    proof
      assume c'
      show "c \<or> (\<exists>k \<in> N. sg k \<subset> sg' k)"
      proof (cases c)
        case False
        with c' \<open>c'\<close> have "sg [x] \<noteq> sg' [x]" by auto
        with m have "sg [x] \<subset> sg' [x]" by blast
        with xN show ?thesis by blast
      qed simp
    qed
    with m v show ?thesis by blast
  next
    case yT: False
    show ?thesis
    proof (cases "[y] \<in> N")
      case False
      with xN yT assms show ?thesis by (simp add: siguientes_posicion_def)
    next
      case yN: True
      with xN yT assms(1) obtain Fy where Fy: "pr [y] = Some Fy"
        by (cases "pr [y]") (auto simp: siguientes_posicion_def)
      let ?sg = "sg([x] := sg [x] \<union> (Fy - {''e''}))"
      let ?c = "c \<or> card (?sg [x]) > card (sg [x])"
      from assms(3) yN Fy have "Fy - {''e''} \<subseteq> V" by blast
      with assms(4) have m0: "\<forall>k. sg k \<subseteq> ?sg k" and v0: "\<forall>k. ?sg k \<subseteq> V" by auto
      have c0: "?c \<longrightarrow> c \<or> (\<exists>k \<in> N. sg k \<subset> ?sg k)"
      proof
        assume h: ?c
        show "c \<or> (\<exists>k \<in> N. sg k \<subset> ?sg k)"
        proof (cases c)
          case False
          with h have "sg [x] \<noteq> ?sg [x]" by auto
          with m0 have "sg [x] \<subset> ?sg [x]" by blast
          with xN show ?thesis by blast
        qed simp
      qed
      show ?thesis
      proof (cases "''e'' \<in> Fy \<and> A \<noteq> [x]")
        case False
        with xN yT yN Fy assms(1) have "sg' = ?sg" "c' = ?c"
          by (auto simp: siguientes_posicion_def Let_def)
        with m0 v0 c0 show ?thesis by simp
      next
        case True
        with xN yT yN Fy assms(1) obtain b where
          a: "agregar_follow N [x] A (?sg, vis) = Devuelve (sg', vis', b)" and c': "c' = (?c \<or> b)"
          by (cases "agregar_follow N [x] A (?sg, vis)") (auto simp: siguientes_posicion_def Let_def)
        from agregar_follow_efecto[OF a v0] have
          m1: "\<forall>k. ?sg k \<subseteq> sg' k" and v1: "\<forall>k. sg' k \<subseteq> V" and b: "b \<longrightarrow> ?sg [x] \<subset> sg' [x]"
          by auto
        from m0 m1 have m: "\<forall>k. sg k \<subseteq> sg' k" by (meson subset_trans)
        have "c' \<longrightarrow> c \<or> (\<exists>k \<in> N. sg k \<subset> sg' k)"
        proof
          assume c'
          with c' consider ?c | b by blast
          then show "c \<or> (\<exists>k \<in> N. sg k \<subset> sg' k)"
          proof cases
            case 1
            with c0 consider c | k where "k \<in> N" "sg k \<subset> ?sg k" by blast
            then show ?thesis
            proof cases
              case 2
              with m1 have "sg k \<subset> sg' k" by (meson psubset_subset_trans)
              with 2 show ?thesis by blast
            qed simp
          next
            case 2
            with b have "?sg [x] \<subset> sg' [x]" by simp
            with m0 have "sg [x] \<subset> sg' [x]" by (meson subset_psubset_trans)
            with xN show ?thesis by blast
          qed
        qed
        with m v1 show ?thesis by blast
      qed
    qed
  qed
qed

lemma siguientes_posicion_no_termina: "siguientes_posicion N T pr A x y s \<noteq> NoTermina"
  by (cases s)
     (auto simp: siguientes_posicion_def Let_def agregar_follow_no_termina
           split: option.splits dest!: ligar_no_termina)

lemma siguientes_posicion_no_lanza:
  "A \<in> N \<Longrightarrow> N \<subseteq> dom pr \<Longrightarrow> siguientes_posicion N T pr A x y s \<noteq> Lanza e"
  by (cases s)
     (auto simp: siguientes_posicion_def Let_def agregar_follow_no_lanza
           split: option.splits dest!: ligar_lanza)

lemma siguientes_recorrer_efecto:
  "siguientes_recorrer N T pr A d (sg, vis, c) = Devuelve (sg', vis', c') \<Longrightarrow>
   T \<subseteq> V \<Longrightarrow> \<forall>k F. k \<in> N \<longrightarrow> pr k = Some F \<longrightarrow> F - {''e''} \<subseteq> V \<Longrightarrow> \<forall>k. sg k \<subseteq> V \<Longrightarrow>
     (\<forall>k. sg k \<subseteq> sg' k) \<and> (\<forall>k. sg' k \<subseteq> V) \<and> (c' \<longrightarrow> c \<or> (\<exists>k \<in> N. sg k \<subset> sg' k))"
proof (induction d arbitrary: sg vis c)
  case Nil
  then show ?case by simp
next
  case (Cons x d)
  show ?case
  proof (cases d)
    case Nil
    show ?thesis
    proof (cases "[x] \<in> N \<and> A \<noteq> [x]")
      case False
      with Cons.prems Nil show ?thesis by auto
    next
      case True
      with Cons.prems(1) Nil obtain b where
        a: "agregar_follow N [x] A (sg, vis) = Devuelve (sg', vis', b)" and c': "c' = (c \<or> b)"
        by (cases "agregar_follow N [x] A (sg, vis)") auto
      from agregar_follow_efecto[OF a Cons.prems(4)] True c' show ?thesis by blast
    qed
  next
    case (Cons y ys)
    from Cons.prems(1) Cons obtain sg1 vis1 c1 where
      p: "siguientes_posicion N T pr A x y (sg, vis, c) = Devuelve (sg1, vis1, c1)"
      and r: "siguientes_recorrer N T pr A d (sg1, vis1, c1) = Devuelve (sg', vis', c')"
      by (auto dest!: ligar_devuelve)
    from siguientes_posicion_efecto[OF p Cons.prems(2,3,4)] have
      m0: "\<forall>k. sg k \<subseteq> sg1 k" and v0: "\<forall>k. sg1 k \<subseteq> V"
      and c0: "c1 \<longrightarrow> c \<or> (\<exists>k \<in> N. sg k \<subset> sg1 k)" by auto
    from Cons.IH[OF r Cons.prems(2,3) v0] have
      m1: "\<forall>k. sg1 k \<subseteq> sg' k" and v1: "\<forall>k. sg' k \<subseteq> V"
      and c1: "c' \<longrightarrow> c1 \<or> (\<exists>k \<in> N. sg1 k \<subset> sg' k)" by auto
    from m0 m1 have m: "\<forall>k. sg k \<subseteq> sg' k" by (meson subset_trans)
    have "c' \<longrightarrow> c \<or> (\<exists>k \<in> N. sg k \<subset> sg' k)"
    proof
      assume c'
      with c1 consider c1 | k where "k \<in> N" "sg1 k \<subset> sg' k" by blast
      then show "c \<or> (\<exists>k \<in> N. sg k \<subset> sg' k)"
      proof cases
        case 1
        with c0 consider c | k where "k \<in> N" "sg k \<subset> sg1 k" by blast
        then show ?thesis
        proof cases
          case 2
          with m1 have "sg k \<subset> sg' k" by (meson psubset_subset_trans)
          with 2 show ?thesis by blast
        qed simp
      next
        case 2
        with m0 have "sg k \<subset> sg' k" by (meson subset_psubset_trans)
        with 2 show ?thesis by blast
      qed
    qed
    with m v1 show ?thesis by blast
  qed
qed

lemma siguientes_recorrer_no_termina: "siguientes_recorrer N T pr A d s \<noteq> NoTermina"
proof (induction N T pr A d s rule: siguientes_recorrer.induct)
  case (1 N T pr A s)
  then show ?case by simp
next
  case (2 N T pr A x sg vis c)
  then show ?case by (auto simp: agregar_follow_no_termina dest!: ligar_no_termina)
next
  case (3 N T pr A x y ys s)
  then show ?case by (auto simp: siguientes_posicion_no_termina dest!: ligar_no_termina)
qed

lemma siguientes_recorrer_no_lanza:
  "A \<in> N \<Longrightarrow> N \<subseteq> dom pr \<Longrightarrow> siguientes_recorrer N T pr A d s \<noteq> Lanza e"
proof (induction N T pr A d s rule: siguientes_recorrer.induct)
  case (1 N T pr A s)
  then show ?case by simp
next
  case (2 N T pr A x sg vis c)
  then show ?case by (auto simp: agregar_follow_no_lanza dest!: ligar_lanza)
next
  case (3 N T pr A x y ys s)
  then show ?case by (auto simp: siguientes_posicion_no_lanza dest!: ligar_lanza)
qed

lemma siguientes_pasada_efecto:
  "siguientes_pasada N T pr rs (sg, vis, c) = Devuelve (sg', vis', c') \<Longrightarrow>
   T \<subseteq> V \<Longrightarrow> \<forall>k F. k \<in> N \<longrightarrow> pr k = Some F \<longrightarrow> F - {''e''} \<subseteq> V \<Longrightarrow> \<forall>k. sg k \<subseteq> V \<Longrightarrow>
     (\<forall>k. sg k \<subseteq> sg' k) \<and> (\<forall>k. sg' k \<subseteq> V) \<and> (c' \<longrightarrow> c \<or> (\<exists>k \<in> N. sg k \<subset> sg' k))"
proof (induction rs arbitrary: sg vis c)
  case Nil
  then show ?case by simp
next
  case (Cons r rs)
  obtain A d where r: "r = (A, d)" by (cases r)
  from Cons.prems(1) r obtain sg1 vis1 c1 where
    p: "siguientes_recorrer N T pr A d (sg, vis, c) = Devuelve (sg1, vis1, c1)"
    and q: "siguientes_pasada N T pr rs (sg1, vis1, c1) = Devuelve (sg', vis', c')"
    by (auto dest!: ligar_devuelve)
  from siguientes_recorrer_efecto[OF p Cons.prems(2,3,4)] have
    m0: "\<forall>k. sg k \<subseteq> sg1 k" and v0: "\<forall>k. sg1 k \<subseteq> V"
    and c0: "c1 \<longrightarrow> c \<or> (\<exists>k \<in> N. sg k \<subset> sg1 k)" by auto
  from Cons.IH[OF q Cons.prems(2,3) v0] have
    m1: "\<forall>k. sg1 k \<subseteq> sg' k" and v1: "\<forall>k. sg' k \<subseteq> V"
    and c1: "c' \<longrightarrow> c1 \<or> (\<exists>k \<in> N. sg1 k \<subset> sg' k)" by auto
  from m0 m1 have m: "\<forall>k. sg k \<subseteq> sg' k" by (meson subset_trans)
  have "c' \<longrightarrow> c \<or> (\<exists>k \<in> N. sg k \<subset> sg' k)"
  proof
    assume c'
    with c1 consider c1 | k where "k \<in> N" "sg1 k \<subset> sg' k" by blast
    then show "c \<or> (\<exists>k \<in> N. sg k \<subset> sg' k)"
    proof cases
      case 1
      with c0 consider c | k where "k \<in> N" "sg k \<subset> sg1 k" by blast
      then show ?thesis
      proof cases
        case 2
        with m1 have "sg k \<subset> sg' k" by (meson psubset_subset_trans)
        with 2 show ?thesis by blast
      qed simp
    next
      case 2
      with m0 have "sg k \<subset> sg' k" by (meson subset_psubset_trans)
      with 2 show ?thesis by blast
    qed
  qed
  with m v1 show ?case by blast
qed

lemma siguientes_pasada_no_termina: "siguientes_pasada N T pr rs s \<noteq> NoTermina"
proof (induction rs arbitrary: s)
  case Nil
  then show ?case by simp
next
  case (Cons r rs)
  then show ?case
    by (cases r) (auto simp: siguientes_recorrer_no_termina dest!: ligar_no_termina)
qed

lemma siguientes_pasada_no_lanza:
  "fst ` set rs \<subseteq> N \<Longrightarrow> N \<subseteq> dom pr \<Longrightarrow> siguientes_pasada N T pr rs s \<noteq> Lanza e"
proof (induction rs arbitrary: s)
  case Nil
  then show ?case by simp
next
  case (Cons r rs)
  then show ?case
    by (cases r) (auto simp: siguientes_recorrer_no_lanza dest!: ligar_lanza)
qed

lemma cota_siguientes_finita:
  assumes "finite N" "finite T" "\<forall>k \<in> N. \<forall>F. pr k = Some F \<longrightarrow> finite F"
  shows "finite (cota_siguientes N T pr)"
proof -
  have "\<forall>k \<in> N. finite (case pr k of Some F \<Rightarrow> F | None \<Rightarrow> {})"
    using assms(3) by (auto split: option.splits)
  with assms(1,2) show ?thesis by (simp add: cota_siguientes_def)
qed

lemma cota_siguientes_cubre:
  "T \<subseteq> cota_siguientes N T pr"
  "\<forall>k F. k \<in> N \<longrightarrow> pr k = Some F \<longrightarrow> F - {''e''} \<subseteq> cota_siguientes N T pr"
  "\<forall>k. siguientes_inicial S N k \<subseteq> cota_siguientes N T pr"
  by (auto simp: cota_siguientes_def siguientes_inicial_def)

lemma suma_decrece:
  assumes "finite N" "finite U" "\<forall>k. sg k \<subseteq> sg' k"
  shows "(\<Sum>k \<in> N. card (U - sg' k)) \<le> (\<Sum>k \<in> N. card (U - sg k))"
    and "k0 \<in> N \<Longrightarrow> sg k0 \<subset> sg' k0 \<Longrightarrow> sg' k0 \<subseteq> U \<Longrightarrow>
           (\<Sum>k \<in> N. card (U - sg' k)) < (\<Sum>k \<in> N. card (U - sg k))"
proof -
  have le: "\<And>k. card (U - sg' k) \<le> card (U - sg k)"
    using assms(2,3) by (intro card_mono) auto
  show "(\<Sum>k \<in> N. card (U - sg' k)) \<le> (\<Sum>k \<in> N. card (U - sg k))"
    by (rule sum_mono) (rule le)
  assume k0: "k0 \<in> N" "sg k0 \<subset> sg' k0" "sg' k0 \<subseteq> U"
  then have "U - sg' k0 \<subset> U - sg k0" by blast
  with assms(2) have "card (U - sg' k0) < card (U - sg k0)"
    by (intro psubset_card_mono) auto
  with k0(1) le assms(1) show "(\<Sum>k \<in> N. card (U - sg' k)) < (\<Sum>k \<in> N. card (U - sg k))"
    by (intro sum_strict_mono_ex1) auto
qed

lemma siguientes_bucle_termina:
  assumes "finite N" "finite T" "\<forall>k \<in> N. \<forall>F. pr k = Some F \<longrightarrow> finite F"
  shows "\<exists>r. siguientes_bucle reglas S N T pr = Some r"
proof -
  let ?U = "cota_siguientes N T pr"
  let ?P = "\<lambda>r. \<forall>sg vis c. r = Devuelve (sg, vis, c) \<longrightarrow> (\<forall>k. sg k \<subseteq> ?U)"
  let ?c = "\<lambda>s. ligar s (\<lambda>(sg, vis, c). siguientes_pasada N T pr reglas (sg, (\<lambda>k. False), False))"
  note fU = cota_siguientes_finita[OF assms]
  show ?thesis unfolding siguientes_bucle_def
  proof (rule measure_while_option_Some[where P = ?P and f = "medida_siguientes N ?U"])
    show "?P (Devuelve (siguientes_inicial S N, \<lambda>k. False, True))"
      using cota_siguientes_cubre(3) by simp
  next
    fix s :: "estado_sig resultado"
    assume P: "?P s" and b: "continua_sig s"
    from b obtain sg vis where s: "s = Devuelve (sg, vis, True)"
      by (cases s rule: continua_sig.cases) auto
    with P have v: "\<forall>k. sg k \<subseteq> ?U" by blast
    let ?r = "siguientes_pasada N T pr reglas (sg, (\<lambda>k. False), False)"
    have cs: "?c s = ?r" using s by simp
    show "?P (?c s) \<and> medida_siguientes N ?U (?c s) < medida_siguientes N ?U s"
    proof (cases ?r)
      case (Devuelve st)
      obtain sg' vis' c' where st: "st = (sg', vis', c')" by (cases st)
      from siguientes_pasada_efecto[OF Devuelve[unfolded st] cota_siguientes_cubre(1,2) v]
      have m: "\<forall>k. sg k \<subseteq> sg' k" and v': "\<forall>k. sg' k \<subseteq> ?U"
        and c': "c' \<longrightarrow> (\<exists>k \<in> N. sg k \<subset> sg' k)" by auto
      have "medida_siguientes N ?U (Devuelve (sg', vis', c')) < medida_siguientes N ?U (Devuelve (sg, vis, True))"
      proof (cases c')
        case True
        with c' obtain k0 where "k0 \<in> N" "sg k0 \<subset> sg' k0" by blast
        from suma_decrece(2)[OF assms(1) fU m this] v' True show ?thesis
          by (simp add: medida_siguientes_def)
      next
        case False
        with suma_decrece(1)[OF assms(1) fU m] show ?thesis
          by (simp add: medida_siguientes_def)
      qed
      with v' cs Devuelve st s show ?thesis by simp
    next
      case (Lanza e)
      with cs s show ?thesis by (simp add: medida_siguientes_def)
    next
      case NoTermina
      with cs s show ?thesis by (simp add: medida_siguientes_def)
    qed
  qed
qed

lemma clasificar_inv:
  "clasificar d (N, T) = (N', T') \<Longrightarrow>
     N \<subseteq> N' \<and> (''e'' \<notin> T \<longrightarrow> ''e'' \<notin> T') \<and> (finite N \<longrightarrow> finite N') \<and> (finite T \<longrightarrow> finite T')"
proof (induction d arbitrary: N T)
  case Nil
  then show ?case by simp
next
  case (Cons c cs)
  show ?case
  proof (cases "es_mayuscula c")
    case True
    with Cons.prems have "clasificar cs (insert [c] N, T) = (N', T')" by simp
    from Cons.IH[OF this] show ?thesis by auto
  next
    case False
    show ?thesis
    proof (cases "[c] = ''e''")
      case True
      with False Cons.prems have "clasificar cs (N, T) = (N', T')" by simp
      from Cons.IH[OF this] show ?thesis by auto
    next
      case ne: False
      with False Cons.prems have "clasificar cs (N, insert [c] T) = (N', T')" by simp
      from Cons.IH[OF this] ne show ?thesis by auto
    qed
  qed
qed

lemma recorrer_reglas_inv:
  "recorrer_reglas rs (N, T) = (N', T') \<Longrightarrow>
     N \<subseteq> N' \<and> fst ` set rs \<subseteq> N' \<and> (''e'' \<notin> T \<longrightarrow> ''e'' \<notin> T') \<and>
     (finite N \<longrightarrow> finite N') \<and> (finite T \<longrightarrow> finite T')"
proof (induction rs arbitrary: N T)
  case Nil
  then show ?case by simp
next
  case (Cons r rs)
  obtain A d where r: "r = (A, d)" by (cases r)
  obtain N1 T1 where c: "clasificar d (insert A N, T) = (N1, T1)"
    by (cases "clasificar d (insert A N, T)")
  from clasificar_inv[OF c] have m: "insert A N \<subseteq> N1" "''e'' \<notin> T \<longrightarrow> ''e'' \<notin> T1"
    "finite N \<longrightarrow> finite N1" "finite T \<longrightarrow> finite T1" by auto
  from Cons.prems r c have "recorrer_reglas rs (N1, T1) = (N', T')" by simp
  from Cons.IH[OF this] have "N1 \<subseteq> N'" "fst ` set rs \<subseteq> N'" "''e'' \<notin> T1 \<longrightarrow> ''e'' \<notin> T'"
    "finite N1 \<longrightarrow> finite N'" "finite T1 \<longrightarrow> finite T'" by auto
  with m r show ?case by auto
qed

lemma identificar_simbolos_inv:
  assumes "identificar_simbolos reglas = (N, T)"
  shows "fst ` set reglas \<subseteq> N" and "''e'' \<notin> T" and "''$'' \<in> T" and "finite N" and "finite T"
proof -
  obtain N1 T1 where r: "recorrer_reglas reglas ({}, {}) = (N1, T1)"
    by (cases "recorrer_reglas reglas ({}, {})")
  with assms have eq: "N = N1" "T = insert ''$'' T1" by (auto simp: identificar_simbolos_def)
  from recorrer_reglas_inv[OF r] have "fst ` set reglas \<subseteq> N1" "''e'' \<notin> T1" "finite N1" "finite T1"
    by auto
  with eq show "fst ` set reglas \<subseteq> N" and "''e'' \<notin> T" and "''$'' \<in> T" and "finite N" and "finite T"
    by auto
qed

lemma primeros_recorrer_cota:
  "primeros_recorrer N T A d (pr, c) = Devuelve (pr', c', todos) \<Longrightarrow> T \<subseteq> W \<Longrightarrow>
     \<forall>k. pr k \<subseteq> W \<Longrightarrow> \<forall>k. pr' k \<subseteq> W"
proof (induction d arbitrary: pr c)
  case Nil
  then show ?case by simp
next
  case (Cons x xs)
  show ?case
  proof (cases "[x] \<in> T")
    case True
    with Cons.prems(1) have "pr' = pr(A := insert [x] (pr A)) \<or> pr' = pr" by (auto split: if_splits)
    with True Cons.prems(2,3) show ?thesis by (auto simp: subset_iff split: if_splits)
  next
    case xT: False
    show ?thesis
    proof (cases "[x] \<in> N")
      case False
      with xT Cons.prems show ?thesis by simp
    next
      case True
      let ?pr = "pr(A := pr A \<union> (pr [x] - {''e''}))"
      from Cons.prems(3) have b: "\<forall>k. ?pr k \<subseteq> W" by auto
      show ?thesis
      proof (cases "''e'' \<notin> ?pr [x]")
        case True
        with xT \<open>[x] \<in> N\<close> Cons.prems(1) have "pr' = ?pr" by (simp add: Let_def)
        with b show ?thesis by simp
      next
        case False
        with xT \<open>[x] \<in> N\<close> Cons.prems(1) have
          "primeros_recorrer N T A xs (?pr, c) = Devuelve (pr', c', todos)" by (simp add: Let_def)
        from Cons.IH[OF this Cons.prems(2) b] show ?thesis .
      qed
    qed
  qed
qed

lemma primeros_regla_cota:
  assumes "primeros_regla N T r (pr, c) = Devuelve (pr', c')" and "T \<subseteq> W" and "''e'' \<in> W"
    and "\<forall>k. pr k \<subseteq> W"
  shows "\<forall>k. pr' k \<subseteq> W"
proof -
  obtain A d where r: "r = (A, d)" by (cases r)
  show ?thesis
  proof (cases "d = []")
    case True
    with assms(1) r have "pr' = pr(A := insert ''e'' (pr A)) \<or> pr' = pr"
      by (auto simp: primeros_regla_def split: if_splits)
    with assms(3,4) show ?thesis by (auto simp: subset_iff split: if_splits)
  next
    case False
    with assms(1) r obtain pr1 c1 todos where
      w: "primeros_recorrer N T A d (pr, c) = Devuelve (pr1, c1, todos)"
      and p: "pr' = (if todos \<and> ''e'' \<notin> pr1 A then pr1(A := insert ''e'' (pr1 A)) else pr1)"
      by (auto simp: primeros_regla_def split: if_splits dest!: ligar_devuelve)
    from primeros_recorrer_cota[OF w assms(2,4)] p assms(3) show ?thesis by auto
  qed
qed

lemma primeros_pasada_cota:
  "primeros_pasada N T rs (pr, c) = Devuelve (pr', c') \<Longrightarrow> T \<subseteq> W \<Longrightarrow> ''e'' \<in> W \<Longrightarrow>
     \<forall>k. pr k \<subseteq> W \<Longrightarrow> \<forall>k. pr' k \<subseteq> W"
proof (induction rs arbitrary: pr c)
  case Nil
  then show ?case by simp
next
  case (Cons r rs)
  from Cons.prems(1) obtain pr1 c1 where
    a: "primeros_regla N T r (pr, c) = Devuelve (pr1, c1)"
    and b: "primeros_pasada N T rs (pr1, c1) = Devuelve (pr', c')"
    by (auto dest!: ligar_devuelve)
  from Cons.IH[OF b Cons.prems(2,3) primeros_regla_cota[OF a Cons.prems(2,3,4)]] show ?case .
qed

lemma calcular_conjuntos_primeros_cota:
  assumes "calcular_conjuntos_primeros reglas N T = Devuelve pr"
  shows "dom pr = N" and "\<forall>k F. pr k = Some F \<longrightarrow> F \<subseteq> insert ''e'' T"
proof -
  let ?W = "insert ''e'' T"
  let ?P = "\<lambda>r. \<forall>f c. r = Devuelve (f, c) \<longrightarrow> (\<forall>k. f k \<subseteq> ?W)"
  from assms obtain r where b: "primeros_bucle reglas N T = Some r"
    and l: "ligar r (\<lambda>(pr, c). Devuelve (como_dict N pr)) = Devuelve pr"
    by (auto simp: calcular_conjuntos_primeros_def split: option.splits)
  from l obtain f c where r: "r = Devuelve (f, c)" and pr: "pr = como_dict N f"
    by (cases r) auto
  have "?P r"
  proof (rule while_option_rule[where P = ?P, OF _ b[unfolded primeros_bucle_def]])
    show "?P (Devuelve (\<lambda>k. {}, True))" by simp
  next
    fix s :: "((string \<Rightarrow> string set) \<times> bool) resultado"
    assume P: "?P s" and "continua s"
    show "?P (ligar s (\<lambda>(pr, c). primeros_pasada N T reglas (pr, False)))"
    proof (cases s)
      case (Devuelve st)
      obtain f0 c0 where st: "st = (f0, c0)" by (cases st)
      with P Devuelve have b0: "\<forall>k. f0 k \<subseteq> ?W" by blast
      show ?thesis
      proof (rule allI, rule allI, rule impI)
        fix f1 c1
        assume "ligar s (\<lambda>(pr, c). primeros_pasada N T reglas (pr, False)) = Devuelve (f1, c1)"
        with Devuelve st have "primeros_pasada N T reglas (f0, False) = Devuelve (f1, c1)" by simp
        from primeros_pasada_cota[OF this _ _ b0] show "\<forall>k. f1 k \<subseteq> ?W" by blast
      qed
    qed simp_all
  qed
  with r have "\<forall>k. f k \<subseteq> ?W" by blast
  with pr show "dom pr = N" and "\<forall>k F. pr k = Some F \<longrightarrow> F \<subseteq> insert ''e'' T"
    by (auto simp: como_dict_def split: if_splits)
qed

text \<open>
  C8. For a grammar with at least one rule, with the alphabets of
  \<^verbatim>\<open>identificar_simbolos\<close>, the FIRST map that the FIRST engine returns and the start
  symbol the left-hand side of the first rule: the FOLLOW engine returns, and the map it
  returns has \<open>$\<close> in the set of the start symbol and \<open>\<epsilon>\<close> (the string \<open>e\<close>) in no
  set.
\<close>

theorem c8_siguientes_invariante:
  assumes "reglas \<noteq> []" and "identificar_simbolos reglas = (N, T)"
    and "calcular_conjuntos_primeros reglas N T = Devuelve pr"
  shows "\<exists>sg. calcular_conjuntos_siguientes reglas (fst (hd reglas)) N T pr = Devuelve sg \<and>
           (\<exists>F. sg (fst (hd reglas)) = Some F \<and> ''$'' \<in> F) \<and>
           (\<forall>X F. sg X = Some F \<longrightarrow> ''e'' \<notin> F)"
proof -
  let ?S = "fst (hd reglas)"
  let ?V = "- {''e''} :: string set"
  note ids = identificar_simbolos_inv[OF assms(2)]
  note prc = calcular_conjuntos_primeros_cota[OF assms(3)]
  from ids(1) assms(1) have S: "?S \<in> N" by (auto simp: image_subset_iff)
  have fin: "\<forall>k \<in> N. \<forall>F. pr k = Some F \<longrightarrow> finite F"
    using prc(2) ids(5) by (meson finite.insertI finite_subset)
  from siguientes_bucle_termina[OF ids(4,5) fin] obtain r where
    b: "siguientes_bucle reglas ?S N T pr = Some r" by blast
  let ?P = "\<lambda>r. \<exists>sg vis c. r = Devuelve (sg, vis, c) \<and> ''$'' \<in> sg ?S \<and> (\<forall>k. sg k \<subseteq> ?V)"
  have dompr: "N \<subseteq> dom pr" using prc(1) by simp
  have TV: "T \<subseteq> ?V" using ids(2) by auto
  have FV: "\<forall>k F. k \<in> N \<longrightarrow> pr k = Some F \<longrightarrow> F - {''e''} \<subseteq> ?V" by auto
  have "?P r"
  proof (rule while_option_rule[where P = ?P, OF _ b[unfolded siguientes_bucle_def]])
    show "?P (Devuelve (siguientes_inicial ?S N, \<lambda>k. False, True))"
      using S by (auto simp: siguientes_inicial_def)
  next
    fix s :: "estado_sig resultado"
    assume "?P s" and "continua_sig s"
    then obtain sg vis c where s: "s = Devuelve (sg, vis, c)" and d: "''$'' \<in> sg ?S"
      and v: "\<forall>k. sg k \<subseteq> ?V" by blast
    let ?r = "siguientes_pasada N T pr reglas (sg, (\<lambda>k. False), False)"
    from siguientes_pasada_no_termina[of N T pr reglas] siguientes_pasada_no_lanza[OF ids(1) dompr]
    obtain sg' vis' c' where p: "?r = Devuelve (sg', vis', c')"
      by (cases ?r) auto
    from siguientes_pasada_efecto[OF p TV FV v] d have "''$'' \<in> sg' ?S" "\<forall>k. sg' k \<subseteq> ?V" by auto
    with p s show "?P (ligar s (\<lambda>(sg, vis, c). siguientes_pasada N T pr reglas (sg, (\<lambda>k. False), False)))"
      by simp
  qed
  then obtain sg vis c where r: "r = Devuelve (sg, vis, c)" and d: "''$'' \<in> sg ?S"
    and v: "\<forall>k. sg k \<subseteq> ?V" by blast
  from b r have "calcular_conjuntos_siguientes reglas ?S N T pr = Devuelve (como_dict N sg)"
    by (simp add: calcular_conjuntos_siguientes_def)
  moreover from S d have "\<exists>F. como_dict N sg ?S = Some F \<and> ''$'' \<in> F" by (simp add: como_dict_def)
  moreover from v have "\<forall>X F. como_dict N sg X = Some F \<longrightarrow> ''e'' \<notin> F"
    by (auto simp: como_dict_def split: if_splits)
  ultimately show ?thesis by blast
qed

theorem c8_siguientes_invariante_witness:
  "\<exists>pr sg. calcular_conjuntos_primeros gramatica_D {''S''} {''$'', ''b'', ''a''} = Devuelve pr \<and>
     calcular_conjuntos_siguientes gramatica_D ''S'' {''S''} {''$'', ''b'', ''a''} pr = Devuelve sg \<and>
     (\<exists>F. sg ''S'' = Some F \<and> ''$'' \<in> F) \<and> (\<forall>X F. sg X = Some F \<longrightarrow> ''e'' \<notin> F)"
proof -
  let ?f = "calcular_conjuntos_primeros gramatica_D {''S''} {''$'', ''b'', ''a''}"
  have "(case ?f of Devuelve p \<Rightarrow> True | Lanza e \<Rightarrow> False | NoTermina \<Rightarrow> False)"
    by code_simp
  then obtain pr where f: "?f = Devuelve pr" by (cases ?f) auto
  have ns: "identificar_simbolos gramatica_D = ({''S''}, {''$'', ''b'', ''a''})"
    by (simp add: gramatica_D_def identificar_simbolos_def es_mayuscula_def)
  have g: "gramatica_D \<noteq> []" and h: "fst (hd gramatica_D) = ''S''"
    by (simp_all add: gramatica_D_def)
  from c8_siguientes_invariante[OF g ns f] f h show ?thesis by auto
qed

section \<open>The recognizer never accepts\<close>

text \<open>
  One iteration of the recognizer's loop ends in acceptance only in the branch taken when
  the top of the stack is \<open>$\<close> and is not a terminal. With \<open>$\<close> among the terminals
  that branch is never taken.
\<close>

lemma ll1_paso_nunca_acepta:
  "''$'' \<in> T \<Longrightarrow> ll1_paso cadena tb T s \<noteq> Devuelve (Inr True)"
  by (cases s) (auto simp: ll1_paso_def split: option.splits)

text \<open>
  Whenever \<open>$\<close> is among the terminals passed to it (\<^verbatim>\<open>identificar_simbolos\<close>
  always puts it there), \<^verbatim>\<open>analizar_ll1\<close> does not return \<open>True\<close>, for any start
  symbol, input string, table and set of non-terminals.
\<close>

theorem analizar_ll1_nunca_acepta:
  assumes "''$'' \<in> T"
  shows "analizar_ll1 S cadena tb N T \<noteq> Devuelve True"
proof (cases "ll1_bucle cadena tb T (pila_inicial S, 0)")
  case None
  then show ?thesis by (simp add: analizar_ll1_def)
next
  case (Some r)
  let ?P = "\<lambda>r. r \<noteq> Devuelve (Inr True)"
  have "?P r"
  proof (rule while_option_rule[where P = ?P, OF _ Some[unfolded ll1_bucle_def]])
    show "?P (Devuelve (Inl (pila_inicial S, 0)))" by simp
  next
    fix r' :: "(string list \<times> nat + bool) resultado"
    assume "?P r'" and "ll1_sigue r'"
    then obtain s where r': "r' = Devuelve (Inl s)" by (cases r' rule: ll1_sigue.cases) auto
    show "?P (ligar r' (\<lambda>v. case v of Inl s \<Rightarrow> ll1_paso cadena tb T s | Inr b \<Rightarrow> Devuelve (Inr b)))"
      using r' ll1_paso_nunca_acepta[OF assms] by simp
  qed
  then have "ll1_veredicto r \<noteq> Devuelve True" by (cases r rule: ll1_veredicto.cases) auto
  with Some show ?thesis by (simp add: analizar_ll1_def)
qed

theorem analizar_ll1_nunca_acepta_witness:
  "''$'' \<in> {''$'', ''b'', ''a''} \<and> analizar_ll1 ''S'' ''ab$'' (tabla_vacia {''S''} {''$'', ''b'', ''a''}) {''S''} {''$'', ''b'', ''a''} \<noteq> Devuelve True"
proof -
  have h: "''$'' \<in> {''$'', ''b'', ''a''}" by simp
  from analizar_ll1_nunca_acepta[OF h] h show ?thesis by blast
qed

end
